theory Spec2Isabelle
  imports Main
begin

section \<open>The mauth middleware (mauth/middleware.py)\<close>

text \<open>
  A shallow embedding of class MultiAuth: the WSGI entry point \<open>__call__\<close> (here
  \<open>call\<close>), the authorisation callback \<open>authorize\<close> and \<open>denied_response\<close>.
  Python strings are \<open>string\<close>; a value that may be None, or a dictionary key that
  may be absent, is an \<open>option\<close>; an exception that leaves a method is a value of
  \<open>error\<close>.
\<close>

subsection \<open>Python string operations used by the middleware\<close>

text \<open>Truthiness of a string that may be None or missing: \<open>if s\<close>.\<close>

definition truthy :: "string option \<Rightarrow> bool" where
  "truthy s = (case s of None \<Rightarrow> False | Some v \<Rightarrow> v \<noteq> [])"

text \<open>\<open>s.startswith(p)\<close> and \<open>s.endswith(p)\<close>.\<close>

definition startswith :: "string \<Rightarrow> string \<Rightarrow> bool" where
  "startswith s p = (take (length p) s = p)"

definition endswith :: "string \<Rightarrow> string \<Rightarrow> bool" where
  "endswith s p = (length p \<le> length s \<and> drop (length s - length p) s = p)"

text \<open>\<open>s.split(sep)\<close> for a one-character separator: every occurrence splits.\<close>

fun split_on :: "char \<Rightarrow> string \<Rightarrow> string list" where
  "split_on sep [] = [[]]"
| "split_on sep (c # cs) =
     (if c = sep then [] # split_on sep cs
      else (case split_on sep cs of [] \<Rightarrow> [[c]] | w # ws \<Rightarrow> (c # w) # ws))"

text \<open>\<open>s.split(sep, maxsplit)\<close>: at most \<open>maxsplit\<close> splits, the rest stays whole.\<close>

fun splitn :: "char \<Rightarrow> nat \<Rightarrow> string \<Rightarrow> string list" where
  "splitn sep 0 s = [s]"
| "splitn sep (Suc n) [] = [[]]"
| "splitn sep (Suc n) (c # cs) =
     (if c = sep then [] # splitn sep n cs
      else (case splitn sep (Suc n) cs of [] \<Rightarrow> [[c]] | w # ws \<Rightarrow> (c # w) # ws))"

text \<open>\<open>s.rsplit(sep, 1)\<close>: one split at the last separator, or the string alone.\<close>

definition rsplit1 :: "char \<Rightarrow> string \<Rightarrow> string list" where
  "rsplit1 sep s =
     (let after = rev (takeWhile (\<lambda>c. c \<noteq> sep) (rev s))
      in if sep \<in> set s then [take (length s - length after - 1) s, after] else [s])"

text \<open>\<open>sep.join(xs)\<close>.\<close>

fun join :: "string \<Rightarrow> string list \<Rightarrow> string" where
  "join sep [] = []"
| "join sep [x] = x"
| "join sep (x # y # ys) = x @ sep @ join sep (y # ys)"

text \<open>
  \<open>s.replace(old, new)\<close>: every non-overlapping occurrence of \<open>old\<close>, scanning from
  the left; with an empty \<open>old\<close>, \<open>new\<close> is put around every character.
\<close>

function str_replace :: "string \<Rightarrow> string \<Rightarrow> string \<Rightarrow> string" where
  "str_replace [] old new = (if old = [] then new else [])"
| "str_replace (c # cs) old new =
     (if old = [] then new @ c # str_replace cs old new
      else if take (length old) (c # cs) = old
           then new @ str_replace (drop (length old) (c # cs)) old new
      else c # str_replace cs old new)"
  by pat_completeness auto
termination
  by (relation "measure (\<lambda>(s, old, new). length s)") auto

text \<open>
  \<open>s.encode("utf-8")\<close> on a Python 2 byte string first decodes it as ASCII, which
  raises UnicodeDecodeError on a byte above 127.
\<close>

definition is_ascii :: "string \<Rightarrow> bool" where
  "is_ascii s = list_all (\<lambda>c. (of_char c :: nat) < 128) s"

subsection \<open>Swift library functions the middleware calls\<close>

text \<open>
  \<open>swift.common.utils.split_path(path, minsegs, maxsegs, rest_with_last=True)\<close>, the
  only form the middleware calls. The result is the list of \<open>maxsegs\<close> segments,
  missing ones None; \<open>None\<close> here is the ValueError of an invalid path.
  \<^verbatim>\<open>
    if not maxsegs: maxsegs = minsegs
    if minsegs > maxsegs: raise ValueError(...)
    segs = path.split('/', maxsegs)
    minsegs += 1; maxsegs += 1
    count = len(segs)
    if segs[0] or count < minsegs or count > maxsegs or '' in segs[1:minsegs]:
        raise ValueError('Invalid path: %s' % quote(path))
    segs = segs[1:maxsegs]
    segs.extend([None] * (maxsegs - 1 - len(segs)))
    return segs
  \<close>
\<close>

definition split_path :: "string \<Rightarrow> nat \<Rightarrow> nat \<Rightarrow> string option list option" where
  "split_path p minsegs maxsegs0 =
     (let maxsegs = (if maxsegs0 = 0 then minsegs else maxsegs0)
      in if minsegs > maxsegs then None
         else
           (let segs = splitn CHR ''/'' maxsegs p;
                minsegs' = minsegs + 1;
                maxsegs' = maxsegs + 1;
                count = length segs
            in if take 1 segs = [[]] \<and> minsegs' \<le> count \<and> count \<le> maxsegs'
                  \<and> [] \<notin> set (take (minsegs' - 1) (drop 1 segs))
               then (let segs' = take (maxsegs' - 1) (drop 1 segs)
                     in Some (map Some segs' @ replicate (maxsegs' - 1 - length segs') None))
               else None))"

text \<open>
  \<open>swift.common.middleware.acl.parse_acl(acl_string)\<close>: the comma-separated values
  that start with \<open>.r:\<close> are referrer rules (the marker cut off), the others are groups.
\<close>

definition parse_acl :: "string option \<Rightarrow> string list \<times> string list" where
  "parse_acl acl_string =
     (if truthy acl_string
      then (let vals = split_on CHR '','' (case acl_string of None \<Rightarrow> [] | Some s \<Rightarrow> s)
            in (map (drop 3) (filter (\<lambda>v. startswith v ''.r:'') vals),
                filter (\<lambda>v. \<not> startswith v ''.r:'') vals))
      else ([], []))"

text \<open>
  \<open>swift.common.middleware.acl.referrer_allowed(referrer, referrer_acl)\<close>, with the
  URL parser's \<open>urlparse(url).hostname\<close> as the parameter \<open>hostname\<close>. The rules are
  read in order and the last one that matches decides.
  \<^verbatim>\<open>
    allow = False
    if referrer_acl:
        rhost = urlparse(referrer or '').hostname or 'unknown'
        for mhost in referrer_acl:
            if mhost.startswith('-'):
                mhost = mhost[1:]
                if mhost == rhost or (mhost.startswith('.') and rhost.endswith(mhost)):
                    allow = False
            elif mhost == '*' or mhost == rhost or \
                    (mhost.startswith('.') and rhost.endswith(mhost)):
                allow = True
    return allow
  \<close>
\<close>

fun referrer_rules :: "string \<Rightarrow> bool \<Rightarrow> string list \<Rightarrow> bool" where
  "referrer_rules rhost allow [] = allow"
| "referrer_rules rhost allow (mhost # rest) =
     (if startswith mhost ''-''
      then (let m = drop 1 mhost
            in if m = rhost \<or> (startswith m ''.'' \<and> endswith rhost m)
               then referrer_rules rhost False rest
               else referrer_rules rhost allow rest)
      else if mhost = ''*'' \<or> mhost = rhost \<or> (startswith mhost ''.'' \<and> endswith rhost mhost)
           then referrer_rules rhost True rest
      else referrer_rules rhost allow rest)"

definition acl_referrer_allowed ::
  "(string \<Rightarrow> string option) \<Rightarrow> string option \<Rightarrow> string list \<Rightarrow> bool" where
  "acl_referrer_allowed hostname referrer referrer_acl =
     (let url = (if truthy referrer then (case referrer of None \<Rightarrow> [] | Some r \<Rightarrow> r) else []);
          rhost = (if truthy (hostname url)
                   then (case hostname url of None \<Rightarrow> [] | Some h \<Rightarrow> h) else ''unknown'')
      in referrer_rules rhost False referrer_acl)"

subsection \<open>Data\<close>

text \<open>
  The identity dictionary an extension returns and the cache holds. A field is None when
  the key is absent; the empty dictionary is falsy.
\<close>

record identity =
  account :: "string option"
  roles :: "string list option"
  token :: "string option"
  expires :: "int option"
  account_url :: "string option"

definition empty_identity :: identity where
  "empty_identity =
     \<lparr>account = None, roles = None, token = None, expires = None, account_url = None\<rparr>"

text \<open>\<open>if identity\<close>, for a variable that holds None or a dictionary.\<close>

definition identity_truthy :: "identity option \<Rightarrow> bool" where
  "identity_truthy i = (case i of None \<Rightarrow> False | Some d \<Rightarrow> d \<noteq> empty_identity)"

text \<open>The payload cached under an S3 access key: \<open>{'secret': ..., 'identity': ...}\<close>.\<close>

record s3_entry =
  secret :: "string option"
  s3_identity :: "identity option"

text \<open>
  The memcache client of \<open>cache_from_env(env)\<close>. The three key prefixes
  \<open>mauth_s3_apikey/\<close>, \<open>mauth_creds/\<close> and \<open>mauth_token/\<close> never collide, so each
  is a map of its own from the rest of the key to the stored pair \<open>(expires, data)\<close>.
\<close>

record memcache =
  mauth_s3_apikey :: "string \<rightharpoonup> int \<times> s3_entry"
  mauth_creds :: "string \<rightharpoonup> int \<times> identity"
  mauth_token :: "string \<rightharpoonup> int \<times> identity"

text \<open>The value of \<open>env['swift.authorize']\<close>: one of the two bound methods.\<close>

datatype hook = authorize_hook | denied_response_hook

text \<open>The keys of the WSGI environment the middleware reads or writes.\<close>

record environ =
  HTTP_AUTHORIZATION :: "string option"
  HTTP_X_AUTH_TOKEN :: "string option"
  HTTP_X_STORAGE_TOKEN :: "string option"
  HTTP_X_AUTH_USER :: "string option"
  HTTP_X_AUTH_KEY :: "string option"
  HTTP_X_AUTH_TTL :: "string option"
  HTTP_X_CONTAINER_SYNC_KEY :: "string option"
  HTTP_X_TIMESTAMP :: "string option"
  HTTP_REFERER :: "string option"
  PATH_INFO :: string
  REMOTE_ADDR :: "string option"
  REMOTE_USER :: "string option"
  mauth_identity :: "identity option"
  swift_authorize :: "hook option"
  swift_clean_acl :: bool
  swift_owner :: bool
  swift_sync_key :: "string option"

text \<open>
  The request object \<open>authorize\<close> receives: its environment, \<open>req.path\<close> (which the
  framework derives from the environment) and the \<open>acl\<close> attribute the proxy sets
  (None when it is not set).
\<close>

record request =
  environ :: environ
  path :: string
  acl :: "string option"

text \<open>The configuration \<open>__init__\<close> reads.\<close>

record conf =
  reseller_prefix :: string
  cache_timeout :: int
  allowed_sync_hosts :: "string list"

text \<open>What \<open>authorize\<close> and \<open>denied_response\<close> return when they do not return None.\<close>

datatype response = HTTPNotFound | HTTPForbidden | HTTPUnauthorized

text \<open>The exceptions that can leave \<open>__call__\<close>.\<close>

datatype error =
  IndexError | ValueError | TypeError | UnicodeDecodeError | AttributeError
  | KeyError | UnboundLocalError

text \<open>
  The library calls of \<open>authorize\<close> that depend on the deployment: the referrer check
  and \<open>get_remote_client\<close>.
\<close>

record swift_lib =
  referrer_allowed :: "string option \<Rightarrow> string list \<Rightarrow> bool"
  get_remote_client :: "request \<Rightarrow> string option"

subsection \<open>denied_response and authorize\<close>

text \<open>
  \<^verbatim>\<open>
    def denied_response(self, req):
        if req.remote_user:
            return HTTPForbidden(request=req)
        else:
            return HTTPUnauthorized(request=req)
  \<close>
\<close>

definition denied_response :: "request \<Rightarrow> response" where
  "denied_response req =
     (if truthy (REMOTE_USER (environ req)) then HTTPForbidden else HTTPUnauthorized)"

text \<open>\<open>x in self.allowed_sync_hosts\<close> for an address that may be None.\<close>

definition in_hosts :: "conf \<Rightarrow> string option \<Rightarrow> bool" where
  "in_hosts cfg a = (case a of None \<Rightarrow> False | Some h \<Rightarrow> h \<in> set (allowed_sync_hosts cfg))"

text \<open>The container-sync condition of lines 274-275.\<close>

definition container_sync :: "conf \<Rightarrow> swift_lib \<Rightarrow> request \<Rightarrow> bool" where
  "container_sync cfg lib req =
     (truthy (swift_sync_key (environ req))
      \<and> swift_sync_key (environ req) = HTTP_X_CONTAINER_SYNC_KEY (environ req)
      \<and> HTTP_X_TIMESTAMP (environ req) \<noteq> None
      \<and> (in_hosts cfg (REMOTE_ADDR (environ req)) \<or> in_hosts cfg (get_remote_client lib req)))"

text \<open>Lines 260-264: the account with the reseller prefix and one more character cut off.\<close>

definition strip_reseller_prefix :: "conf \<Rightarrow> string \<Rightarrow> string" where
  "strip_reseller_prefix cfg a =
     (if reseller_prefix cfg \<noteq> [] then drop (length (reseller_prefix cfg) + 1) a else a)"

text \<open>\<open>env.get('mauth.identity', {})\<close>.\<close>

definition request_identity :: "request \<Rightarrow> identity" where
  "request_identity req =
     (case mauth_identity (environ req) of None \<Rightarrow> empty_identity | Some i \<Rightarrow> i)"

text \<open>\<open>identity.get('roles', [])\<close>.\<close>

definition user_roles :: "request \<Rightarrow> string list" where
  "user_roles req = (case roles (request_identity req) of None \<Rightarrow> [] | Some rs \<Rightarrow> rs)"

text \<open>
  Lines 266-294, once the path has an account that passed the prefix gate. The result is
  what \<open>authorize\<close> returns (None allows) and the request with its environment as the
  method leaves it.
\<close>

definition authorize_account ::
  "conf \<Rightarrow> swift_lib \<Rightarrow> request \<Rightarrow> string \<Rightarrow> string option \<Rightarrow> response option \<times> request" where
  "authorize_account cfg lib req a obj =
     (if Some (strip_reseller_prefix cfg a) = account (request_identity req)
      then (None, req\<lparr>environ := (environ req)\<lparr>swift_owner := True\<rparr>\<rparr>)
      else if container_sync cfg lib req then (None, req)
      else (case parse_acl (acl req) of (referrers, groups) \<Rightarrow>
        if referrer_allowed lib (HTTP_REFERER (environ req)) referrers
        then (if truthy obj \<or> ''.rlistings'' \<in> set groups then (None, req)
              else (Some (denied_response req), req))
        else if \<exists>role \<in> set (user_roles req). role \<in> set groups then (None, req)
        else (Some (denied_response req), req)))"

text \<open>
  \<^verbatim>\<open>
    def authorize(self, req):
        env = req.environ
        identity = env.get('mauth.identity', {})
        try:
            version, _account, container, obj = split_path(req.path, minsegs=1, maxsegs=4, rest_with_last=True)
        except ValueError:
            return HTTPNotFound(request=req)
        if not _account or not _account.startswith(self.reseller_prefix):
            return self.denied_response(req)
        ...
  \<close>
\<close>

definition authorize :: "conf \<Rightarrow> swift_lib \<Rightarrow> request \<Rightarrow> response option \<times> request" where
  "authorize cfg lib req =
     (case split_path (path req) 1 4 of
        Some [version, acct, container, obj] \<Rightarrow>
          (case acct of
             None \<Rightarrow> (Some (denied_response req), req)
           | Some a \<Rightarrow>
               if a \<noteq> [] \<and> startswith a (reseller_prefix cfg)
               then authorize_account cfg lib req a obj
               else (Some (denied_response req), req))
      | _ \<Rightarrow> (Some HTTPNotFound, req))"

subsection \<open>The entry point __call__\<close>

text \<open>
  What is outside this file: the base64 and HMAC functions of the Python library (None
  where the Python raises), the extension's \<open>validate_token\<close> (the identity, or None),
  and whether \<open>datetime.fromtimestamp\<close> accepts a timestamp.
\<close>

record collaborators =
  urlsafe_b64decode :: "string \<Rightarrow> string option"
  hmac_sha1_digest :: "string \<Rightarrow> string \<Rightarrow> string option"
  b64encode :: "string \<Rightarrow> string"
  validate_token :: "string option \<Rightarrow> identity option"
  fromtimestamp_ok :: "int \<Rightarrow> bool"

text \<open>The calls to the three extension methods, in the order they are made.\<close>

datatype provider_call =
  Called_get_s3_identity | Called_get_identity | Called_validate_token "string option"

text \<open>
  The local variable \<open>token\<close>: not assigned yet, or bound to None or to a string.
  Reading it while unbound raises UnboundLocalError.
\<close>

datatype tokvar = Unbound | Bound "string option"

text \<open>
  How \<open>__call__\<close> ends: it hands the environment to the next application, answers with
  the token response (the values of x-auth-token, x-storage-token and x-storage-url),
  returns HTTPNotFound, or an exception leaves it.
\<close>

datatype outcome =
  App environ
  | TokenResponse "string option" "string option" "string option"
  | ReturnNotFound
  | Raise error

text \<open>The locals that live across the blocks: identity, token, env, and the provider calls made.\<close>

type_synonym locals = "identity option \<times> tokvar \<times> environ \<times> provider_call list"

text \<open>
  Lines 140-143, 182-185 and 217-219: the stored pair is used only when the configured
  \<open>cache_timeout\<close> is positive and \<open>expires > time()\<close>.
\<close>

definition valid_cache :: "conf \<Rightarrow> int \<Rightarrow> (int \<times> 'a) option \<Rightarrow> 'a option" where
  "valid_cache cfg now memcache_result =
     (case memcache_result of
        None \<Rightarrow> None
      | Some (e, data) \<Rightarrow> if 0 < cache_timeout cfg \<and> now < e then Some data else None)"

text \<open>
  \<open>env.get('HTTP_X_AUTH_TTL', 1) > 0\<close>. A header value is a string, and Python 2 orders
  every string above every integer, so the comparison holds for any value of the header.
\<close>

definition ttl_positive :: "environ \<Rightarrow> bool" where
  "ttl_positive env = (case HTTP_X_AUTH_TTL env of None \<Rightarrow> (0::int) < 1 | Some v \<Rightarrow> True)"

text \<open>\<open>env.get('HTTP_X_AUTH_TOKEN', env.get('HTTP_X_STORAGE_TOKEN'))\<close>.\<close>

definition request_token :: "environ \<Rightarrow> string option" where
  "request_token env =
     (case HTTP_X_AUTH_TOKEN env of None \<Rightarrow> HTTP_X_STORAGE_TOKEN env | Some t \<Rightarrow> Some t)"

text \<open>\<open>'%s' % token\<close>.\<close>

definition format_token :: "string option \<Rightarrow> string" where
  "format_token t = (case t of None \<Rightarrow> ''None'' | Some s \<Rightarrow> s)"

text \<open>Lines 153-156: the name that replaces the access key in PATH_INFO.\<close>

definition account_path_name :: "conf \<Rightarrow> identity \<Rightarrow> string" where
  "account_path_name cfg i =
     (let a = (case account i of None \<Rightarrow> [] | Some v \<Rightarrow> v)
      in if reseller_prefix cfg \<noteq> [] then reseller_prefix cfg @ ''_'' @ a else a)"

text \<open>
  Lines 144-156: the request is checked against the cached secret.
  \<^verbatim>\<open>
    s3_token = base64.urlsafe_b64decode(env.get('HTTP_X_AUTH_TOKEN', '')).encode("utf-8")
    if s3_signature == base64.b64encode(hmac.new(data.get('secret', ''), s3_token, hashlib.sha1).digest()):
        identity = data.get('identity', None)
        token = identity.get('token', None)
        if self.reseller_prefix != '':
            env['PATH_INFO'] = env['PATH_INFO'].replace(s3_apikey, '%s_%s' % (self.reseller_prefix, identity.get('account', '')))
        else:
            env['PATH_INFO'] = env['PATH_INFO'].replace(s3_apikey, '%s' % (identity.get('account', '')))
  \<close>
\<close>

definition s3_cached ::
  "conf \<Rightarrow> collaborators \<Rightarrow> environ \<Rightarrow> string \<Rightarrow> string \<Rightarrow> s3_entry \<Rightarrow> outcome + locals" where
  "s3_cached cfg ext env s3_apikey s3_signature data =
     (case urlsafe_b64decode ext (case HTTP_X_AUTH_TOKEN env of None \<Rightarrow> [] | Some t \<Rightarrow> t) of
        None \<Rightarrow> Inl (Raise TypeError)
      | Some s3_token \<Rightarrow>
          if is_ascii s3_token
          then (case hmac_sha1_digest ext (case secret data of None \<Rightarrow> [] | Some k \<Rightarrow> k) s3_token of
                  None \<Rightarrow> Inl (Raise TypeError)
                | Some digest \<Rightarrow>
                    if s3_signature = b64encode ext digest
                    then (case s3_identity data of
                            None \<Rightarrow> Inl (Raise AttributeError)
                          | Some i \<Rightarrow>
                              Inr (Some i, Bound (token i),
                                   env\<lparr>PATH_INFO :=
                                     str_replace (PATH_INFO env) s3_apikey (account_path_name cfg i)\<rparr>,
                                   []))
                    else Inr (None, Unbound, env, []))
          else Inl (Raise UnicodeDecodeError))"

text \<open>
  Lines 131-162. \<open>s3.split(' ')[1]\<close> raises IndexError when the header has no space, and
  the assignment to two names raises ValueError when \<open>rsplit(':', 1)\<close> gives one part.
  \<^verbatim>\<open>
    s3 = env.get('HTTP_AUTHORIZATION', None)
    if s3 and s3.startswith('AWS'):
        s3_apikey, s3_signature = s3.split(' ')[1].rsplit(':', 1)[:]
        if s3_apikey and s3_signature:
            ...
            if valid_cache: ...
            else: self.get_s3_identity();
        else:
            env['swift.authorize'] = self.denied_response
            return self.app(env, start_response)
  \<close>
\<close>

definition s3_block ::
  "conf \<Rightarrow> collaborators \<Rightarrow> int \<Rightarrow> memcache \<Rightarrow> environ \<Rightarrow> outcome + locals" where
  "s3_block cfg ext now mc env =
     (if truthy (HTTP_AUTHORIZATION env)
         \<and> startswith (case HTTP_AUTHORIZATION env of None \<Rightarrow> [] | Some s \<Rightarrow> s) ''AWS''
      then (case split_on CHR '' '' (case HTTP_AUTHORIZATION env of None \<Rightarrow> [] | Some s \<Rightarrow> s) of
              w0 # w1 # ws \<Rightarrow>
                (case rsplit1 CHR '':'' w1 of
                   [s3_apikey, s3_signature] \<Rightarrow>
                     if s3_apikey \<noteq> [] \<and> s3_signature \<noteq> []
                     then (case valid_cache cfg now (mauth_s3_apikey mc s3_apikey) of
                             Some data \<Rightarrow> s3_cached cfg ext env s3_apikey s3_signature data
                           | None \<Rightarrow> Inr (None, Unbound, env, [Called_get_s3_identity]))
                     else Inl (App (env\<lparr>swift_authorize := Some denied_response_hook\<rparr>))
                 | _ \<Rightarrow> Inl (Raise ValueError))
            | _ \<Rightarrow> Inl (Raise IndexError))
      else Inr (None, Unbound, env, []))"

text \<open>
  Lines 176-201: a request for a token at an auth URL.
  \<^verbatim>\<open>
    if auth_user and auth_key:
        memcache_result = memcache_client.get('mauth_creds/%s/%s' % (auth_user, auth_key))
        ...
        if memcache_result and self.cache_timeout > 0 and env.get('HTTP_X_AUTH_TTL', 1) > 0:
            expires, data = memcache_result
            if expires > time(): valid_cache = True
        if valid_cache:
            identity = data
            token = identity.get('token', None)
            req.response = Response(request=req, headers={'x-auth-token':token,
                'x-storage-token':token, 'x-storage-url':identity.get('account_url', None)})
            return req.response(env, start_response)
        else:
            self.get_identity()
    else:
        env['swift.authorize'] = self.denied_response
        return self.app(env, start_response)
  \<close>
\<close>

definition auth_request :: "conf \<Rightarrow> int \<Rightarrow> memcache \<Rightarrow> locals \<Rightarrow> outcome + locals" where
  "auth_request cfg now mc loc =
     (case loc of (ident, tok, env, calls) \<Rightarrow>
        if truthy (HTTP_X_AUTH_USER env) \<and> truthy (HTTP_X_AUTH_KEY env)
        then (case (if ttl_positive env
                    then valid_cache cfg now
                           (mauth_creds mc
                              ((case HTTP_X_AUTH_USER env of None \<Rightarrow> [] | Some u \<Rightarrow> u) @ ''/''
                               @ (case HTTP_X_AUTH_KEY env of None \<Rightarrow> [] | Some k \<Rightarrow> k)))
                    else None) of
                Some data \<Rightarrow> Inl (TokenResponse (token data) (token data) (account_url data))
              | None \<Rightarrow> Inr (ident, tok, env, calls @ [Called_get_identity]))
        else Inl (App (env\<lparr>swift_authorize := Some denied_response_hook\<rparr>)))"

text \<open>
  Lines 165-203: skipped when the Authorization header is set.
  \<^verbatim>\<open>
    if not s3:
        try:
            auth_url_piece, rest_of_url = split_path(req.path_info, minsegs=1, maxsegs=2, rest_with_last=True)
        except ValueError:
            return HTTPNotFound(request=req)
        if auth_url_piece in ('auth', 'v1.0'):
            ...
        else:
            token = env.get('HTTP_X_AUTH_TOKEN', env.get('HTTP_X_STORAGE_TOKEN'))
  \<close>
\<close>

definition native_block :: "conf \<Rightarrow> int \<Rightarrow> memcache \<Rightarrow> locals \<Rightarrow> outcome + locals" where
  "native_block cfg now mc loc =
     (case loc of (ident, tok, env, calls) \<Rightarrow>
        if truthy (HTTP_AUTHORIZATION env) then Inr loc
        else (case split_path (PATH_INFO env) 1 2 of
                Some [auth_url_piece, rest_of_url] \<Rightarrow>
                  if auth_url_piece = Some ''auth'' \<or> auth_url_piece = Some ''v1.0''
                  then auth_request cfg now mc loc
                  else Inr (ident, Bound (request_token env), env, calls)
              | _ \<Rightarrow> Inl ReturnNotFound))"

text \<open>
  Lines 240-245: the identity is put into the environment.
  \<^verbatim>\<open>
    env['mauth.identity'] = identity
    env['REMOTE_USER'] = ':'.join(identity['roles'])
    env['swift.authorize'] = self.authorize
    env['swift.clean_acl'] = clean_acl
    return self.app(env, start_response)
  \<close>
\<close>

definition install :: "environ \<Rightarrow> identity \<Rightarrow> outcome" where
  "install env i =
     (case roles i of
        None \<Rightarrow> Raise KeyError
      | Some rs \<Rightarrow>
          App (env\<lparr>mauth_identity := Some i, REMOTE_USER := Some (join '':'' rs),
                   swift_authorize := Some authorize_hook, swift_clean_acl := True\<rparr>))"

text \<open>
  Lines 223-234: the extension validates the token and a valid identity is cached.
  \<^verbatim>\<open>
    identity = self.validate_token(token)
    if identity and memcache_client:
        expires = identity['expires']
        memcache_client.set('mauth_token/%s' % token, (expires, identity), timeout=expires - time())
        ts = str(datetime.fromtimestamp(expires))
    else:
        env['swift.authorize'] = self.denied_response
        return self.app(env, start_response)
  \<close>
\<close>

definition validate ::
  "collaborators \<Rightarrow> memcache \<Rightarrow> environ \<Rightarrow> provider_call list \<Rightarrow> string option
     \<Rightarrow> outcome \<times> memcache \<times> provider_call list" where
  "validate ext mc env calls t =
     (case validate_token ext t of
        None \<Rightarrow> (App (env\<lparr>swift_authorize := Some denied_response_hook\<rparr>), mc,
                 calls @ [Called_validate_token t])
      | Some i \<Rightarrow>
          if i = empty_identity
          then (App (env\<lparr>swift_authorize := Some denied_response_hook\<rparr>), mc,
                calls @ [Called_validate_token t])
          else (case expires i of
                  None \<Rightarrow> (Raise KeyError, mc, calls @ [Called_validate_token t])
                | Some e \<Rightarrow>
                    (if fromtimestamp_ok ext e then install env i else Raise ValueError,
                     mc\<lparr>mauth_token := (mauth_token mc)(format_token t \<mapsto> (e, i))\<rparr>,
                     calls @ [Called_validate_token t])))"

text \<open>
  Lines 205-245.
  \<^verbatim>\<open>
    if not identity and not env.get('HTTP_X_AUTH_TOKEN', env.get('HTTP_X_STORAGE_TOKEN', None)):
        env['swift.authorize'] = self.authorize
        env['swift.clean_acl'] = clean_acl
        return self.app(env, start_response)
    memcache_client = cache_from_env(env)
    if not identity:
        memcache_result = memcache_client.get('mauth_token/%s' % token)
        if memcache_result and self.cache_timeout > 0:
            expires, _identity = memcache_result
            if expires > time():
                identity = _identity
    if not identity:
        ...
  \<close>
\<close>

definition token_block ::
  "conf \<Rightarrow> collaborators \<Rightarrow> int \<Rightarrow> memcache \<Rightarrow> locals
     \<Rightarrow> outcome \<times> memcache \<times> provider_call list" where
  "token_block cfg ext now mc loc =
     (case loc of (ident, tok, env, calls) \<Rightarrow>
        if identity_truthy ident
        then (install env (case ident of None \<Rightarrow> empty_identity | Some i \<Rightarrow> i), mc, calls)
        else if truthy (request_token env)
        then (case tok of
                Unbound \<Rightarrow> (Raise UnboundLocalError, mc, calls)
              | Bound t \<Rightarrow>
                  (case valid_cache cfg now (mauth_token mc (format_token t)) of
                     None \<Rightarrow> validate ext mc env calls t
                   | Some i \<Rightarrow>
                       if i = empty_identity then validate ext mc env calls t
                       else (install env i, mc, calls)))
        else (App (env\<lparr>swift_authorize := Some authorize_hook, swift_clean_acl := True\<rparr>),
              mc, calls))"

text \<open>
  \<open>__call__(self, env, start_response)\<close>: the outcome, the cache as the call leaves it
  and the provider calls made. \<open>now\<close> is the value of \<open>time()\<close>.
\<close>

definition call ::
  "conf \<Rightarrow> collaborators \<Rightarrow> int \<Rightarrow> memcache \<Rightarrow> environ
     \<Rightarrow> outcome \<times> memcache \<times> provider_call list" where
  "call cfg ext now mc env =
     (case s3_block cfg ext now mc env of
        Inl out \<Rightarrow> (out, mc, [])
      | Inr loc \<Rightarrow>
          (case native_block cfg now mc loc of
             Inl out \<Rightarrow> (out, mc, [])
           | Inr loc' \<Rightarrow> token_block cfg ext now mc loc'))"

subsection \<open>Example configuration, identities and requests\<close>

text \<open>
  The deployment of the examples: reseller prefix AUTH, the default cache timeout and
  sync host, and the clock at 1000.
\<close>

definition example_conf :: conf where
  "example_conf =
     \<lparr>reseller_prefix = ''AUTH'', cache_timeout = 86400, allowed_sync_hosts = [''127.0.0.1'']\<rparr>"

text \<open>The same deployment with caching switched off by \<open>cache_timeout = 0\<close>.\<close>

definition nocache_conf :: conf where
  "nocache_conf = example_conf\<lparr>cache_timeout := 0\<rparr>"

text \<open>
  The library as the examples need it: the host name of the one referring page they
  use (an empty URL has none), and \<open>get_remote_client\<close> on requests that carry no
  x-cluster-client-ip and no x-forwarded-for header.
\<close>

definition example_hostname :: "string \<Rightarrow> string option" where
  "example_hostname url =
     (if url = ''http://www.example.com/index.html'' then Some ''www.example.com'' else None)"

definition example_lib :: swift_lib where
  "example_lib =
     \<lparr>referrer_allowed = acl_referrer_allowed example_hostname,
      get_remote_client = (\<lambda>req. None)\<rparr>"

definition alice :: identity where
  "alice =
     \<lparr>account = Some ''alice'', roles = Some [''admin''], token = Some ''T1'',
      expires = Some 4600, account_url = Some ''http://127.0.0.1:8080/v1/AUTH_alice''\<rparr>"

definition bob :: identity where
  "bob =
     \<lparr>account = Some ''bob'', roles = Some [''staff''], token = Some ''T2'',
      expires = Some 4600, account_url = Some ''http://127.0.0.1:8080/v1/AUTH_bob''\<rparr>"

text \<open>An environment with none of the keys set.\<close>

definition blank_env :: environ where
  "blank_env =
     \<lparr>HTTP_AUTHORIZATION = None, HTTP_X_AUTH_TOKEN = None, HTTP_X_STORAGE_TOKEN = None,
      HTTP_X_AUTH_USER = None, HTTP_X_AUTH_KEY = None, HTTP_X_AUTH_TTL = None,
      HTTP_X_CONTAINER_SYNC_KEY = None, HTTP_X_TIMESTAMP = None, HTTP_REFERER = None,
      PATH_INFO = ''/'', REMOTE_ADDR = None, REMOTE_USER = None, mauth_identity = None,
      swift_authorize = None, swift_clean_acl = False, swift_owner = False,
      swift_sync_key = None\<rparr>"

definition empty_cache :: memcache where
  "empty_cache = \<lparr>mauth_s3_apikey = Map.empty, mauth_creds = Map.empty, mauth_token = Map.empty\<rparr>"

text \<open>
  Alice reads her own object; the container's ACL rejects every referrer and names a
  group she is not in.
\<close>

definition owner_request :: request where
  "owner_request =
     \<lparr>environ = blank_env\<lparr>PATH_INFO := ''/v1/AUTH_alice/c1/obj'',
                            mauth_identity := Some alice, REMOTE_USER := Some ''admin''\<rparr>,
      path = ''/v1/AUTH_alice/c1/obj'',
      acl = Some ''.r:-*,managers''\<rparr>"

text \<open>
  Bob lists Alice's container from a page the ACL admits; the ACL also names his group
  \<open>staff\<close> but has no \<open>.rlistings\<close>.
\<close>

definition listing_request :: request where
  "listing_request =
     \<lparr>environ = blank_env\<lparr>PATH_INFO := ''/v1/AUTH_alice/c1'',
                            HTTP_REFERER := Some ''http://www.example.com/index.html'',
                            mauth_identity := Some bob, REMOTE_USER := Some ''staff''\<rparr>,
      path = ''/v1/AUTH_alice/c1'',
      acl = Some ''.r:.example.com,staff''\<rparr>"

text \<open>The same listing from an anonymous client: no identity and no REMOTE_USER.\<close>

definition anonymous_listing_request :: request where
  "anonymous_listing_request =
     \<lparr>environ = blank_env\<lparr>PATH_INFO := ''/v1/AUTH_alice/c1'',
                            HTTP_REFERER := Some ''http://www.example.com/index.html''\<rparr>,
      path = ''/v1/AUTH_alice/c1'',
      acl = Some ''.r:.example.com,staff''\<rparr>"

text \<open>An anonymous request for the path \<open>/v1\<close>: a version and no account.\<close>

definition version_only_request :: request where
  "version_only_request =
     \<lparr>environ = blank_env\<lparr>PATH_INFO := ''/v1''\<rparr>, path = ''/v1'', acl = None\<rparr>"

text \<open>An anonymous request whose path does not start with a slash.\<close>

definition no_slash_request :: request where
  "no_slash_request =
     \<lparr>environ = blank_env\<lparr>PATH_INFO := ''v1/AUTH_alice''\<rparr>, path = ''v1/AUTH_alice'', acl = None\<rparr>"

text \<open>
  The collaborators at the arguments the examples use. \<open>Y2hhbGxlbmdl\<close> is the URL-safe
  base64 of \<open>challenge\<close>, \<open>_w==\<close> that of the single byte 255, and \<open>a\<close> is not
  base64 (decoding it raises). \<open>example_digest\<close> is the HMAC-SHA1 of \<open>challenge\<close>
  under the key \<open>s3secret\<close>, and \<open>cxwKrgJ3dHLbZ7U5LgatetGbiOY=\<close> its base64. The
  extension knows the token T1 of Alice; timestamps up to the year 9999 are accepted.
\<close>

definition example_digest :: string where
  "example_digest =
     map char_of [115, 28, 10, 174, 2, 119, 116, 114, 219, 103,
                  181, 57, 46, 6, 173, 122, 209, 155, 136, 230 :: nat]"

definition example_ext :: collaborators where
  "example_ext =
     \<lparr>urlsafe_b64decode =
        (\<lambda>s. if s = ''Y2hhbGxlbmdl'' then Some ''challenge''
             else if s = ''_w=='' then Some [char_of (255 :: nat)]
             else if s = [] then Some []
             else None),
      hmac_sha1_digest =
        (\<lambda>k m. if k = ''s3secret'' \<and> m = ''challenge'' then Some example_digest else Some []),
      b64encode = (\<lambda>d. if d = example_digest then ''cxwKrgJ3dHLbZ7U5LgatetGbiOY='' else []),
      validate_token = (\<lambda>t. if t = Some ''T1'' then Some alice else None),
      fromtimestamp_ok = (\<lambda>e. 0 \<le> e \<and> e < 253402300800)\<rparr>"

text \<open>
  An extension that caches its secrets as unicode objects: \<open>hmac.new\<close> of Python 2
  raises TypeError on such a key.
\<close>

definition unicode_secret_ext :: collaborators where
  "unicode_secret_ext = example_ext\<lparr>hmac_sha1_digest := (\<lambda>k m. None)\<rparr>"

text \<open>
  A cache that holds Alice under her access key, her credentials and her token, each
  entry expiring at 4600; and the same cache with the entries expired at 900.
\<close>

definition warm_cache :: memcache where
  "warm_cache =
     \<lparr>mauth_s3_apikey =
        [''AKIAXXX'' \<mapsto> (4600, \<lparr>secret = Some ''s3secret'', s3_identity = Some alice\<rparr>)],
      mauth_creds = [''alice/k1'' \<mapsto> (4600, alice)],
      mauth_token = [''T1'' \<mapsto> (4600, alice)]\<rparr>"

definition stale_cache :: memcache where
  "stale_cache =
     \<lparr>mauth_s3_apikey =
        [''AKIAXXX'' \<mapsto> (900, \<lparr>secret = Some ''s3secret'', s3_identity = Some alice\<rparr>)],
      mauth_creds = [''alice/k1'' \<mapsto> (900, alice)],
      mauth_token = [''T1'' \<mapsto> (900, alice)]\<rparr>"

text \<open>
  An S3 request as the swift3 middleware hands it on: the access key and the signature
  in the Authorization header, the string to sign in X-Auth-Token, the access key as
  the account in the path.
\<close>

definition s3_env :: environ where
  "s3_env =
     blank_env\<lparr>HTTP_AUTHORIZATION := Some ''AWS AKIAXXX:cxwKrgJ3dHLbZ7U5LgatetGbiOY='',
               HTTP_X_AUTH_TOKEN := Some ''Y2hhbGxlbmdl'',
               PATH_INFO := ''/v1/AKIAXXX/bucket/obj''\<rparr>"

text \<open>The same request with a signature that is not the one of the cached secret.\<close>

definition s3_forged_env :: environ where
  "s3_forged_env = s3_env\<lparr>HTTP_AUTHORIZATION := Some ''AWS AKIAXXX:forged''\<rparr>"

text \<open>The header of the spec's scenario D: no colon, so no signature.\<close>

definition s3_malformed_env :: environ where
  "s3_malformed_env = s3_env\<lparr>HTTP_AUTHORIZATION := Some ''AWS malformed''\<rparr>"

text \<open>A header with a colon and an empty signature.\<close>

definition s3_empty_signature_env :: environ where
  "s3_empty_signature_env = s3_env\<lparr>HTTP_AUTHORIZATION := Some ''AWS AKIAXXX:''\<rparr>"

text \<open>S3 requests whose X-Auth-Token is not base64, or decodes to a byte above 127.\<close>

definition s3_bad_token_env :: environ where
  "s3_bad_token_env = s3_env\<lparr>HTTP_X_AUTH_TOKEN := Some ''a''\<rparr>"

definition s3_high_byte_env :: environ where
  "s3_high_byte_env = s3_env\<lparr>HTTP_X_AUTH_TOKEN := Some ''_w==''\<rparr>"

text \<open>An S3 request for an object whose name contains the access key.\<close>

definition s3_repeat_env :: environ where
  "s3_repeat_env = s3_env\<lparr>PATH_INFO := ''/v1/AKIAXXX/bucket/AKIAXXX.txt''\<rparr>"

text \<open>Requests for a token at the auth URL: with credentials, and without.\<close>

definition auth_env :: environ where
  "auth_env =
     blank_env\<lparr>PATH_INFO := ''/v1.0'', HTTP_X_AUTH_USER := Some ''alice'',
               HTTP_X_AUTH_KEY := Some ''k1''\<rparr>"

definition auth_no_creds_env :: environ where
  "auth_no_creds_env = blank_env\<lparr>PATH_INFO := ''/v1.0''\<rparr>"

text \<open>A request with a token, and the same request with no token.\<close>

definition token_env :: environ where
  "token_env =
     blank_env\<lparr>PATH_INFO := ''/v1/AUTH_alice/c1/obj'', HTTP_X_AUTH_TOKEN := Some ''T1''\<rparr>"

definition anonymous_env :: environ where
  "anonymous_env = blank_env\<lparr>PATH_INFO := ''/v1/AUTH_alice/c1/obj''\<rparr>"

text \<open>
  The anonymous request as the next application sees it, with the hooks installed, for a
  container whose ACL names a group and no referrer.
\<close>

definition forwarded_anonymous_request :: request where
  "forwarded_anonymous_request =
     \<lparr>environ = anonymous_env\<lparr>swift_authorize := Some authorize_hook, swift_clean_acl := True\<rparr>,
      path = ''/v1/AUTH_alice/c1/obj'',
      acl = Some ''staff''\<rparr>"

text \<open>
  A cache whose entry for the token T1 has expired and holds another identity than the
  one the extension now returns for that token.
\<close>

definition stale_token_cache :: memcache where
  "stale_token_cache = stale_cache\<lparr>mauth_token := [''T1'' \<mapsto> (900, bob)]\<rparr>"

text \<open>An extension that accepts no token.\<close>

definition rejecting_ext :: collaborators where
  "rejecting_ext = example_ext\<lparr>validate_token := (\<lambda>t. None)\<rparr>"

section \<open>Properties\<close>

subsection \<open>Path parsing\<close>

lemma splitn_ne: "splitn sep n s \<noteq> []"
  by (induction sep n s rule: splitn.induct) (auto split: list.splits)

lemma splitn_length: "length (splitn sep n s) \<le> Suc n"
  by (induction sep n s rule: splitn.induct) (auto split: list.splits)

lemma splitn_first_empty:
  "splitn sep (Suc n) s = w # ws \<Longrightarrow> (w = []) = (s = [] \<or> (\<exists>q. s = sep # q))"
  by (cases s) (auto split: list.splits if_splits simp: splitn_ne)

lemma split_path_4_length: "split_path p 1 4 = Some l \<Longrightarrow> length l = 4"
  by (auto simp: split_path_def Let_def split: if_splits)

lemma list4: "length l = 4 \<Longrightarrow> \<exists>a b c d. l = [a, b, c, d]"
  by (cases l; simp; cases "tl l"; simp; cases "tl (tl l)"; simp; cases "tl (tl (tl l))"; simp)

lemma split_path_4_shape:
  "split_path p 1 4 = Some l \<Longrightarrow> \<exists>version acct container obj. l = [version, acct, container, obj]"
  using split_path_4_length list4 by blast

lemma split_path_4_valid:
  "(split_path p 1 4 = None) = (\<not> (\<exists>c q. p = CHR ''/'' # c # q \<and> c \<noteq> CHR ''/''))"
proof (cases p)
  case Nil
  then show ?thesis by (simp add: split_path_def eval_nat_numeral)
next
  case (Cons c cs)
  show ?thesis
  proof (cases "c = CHR ''/''")
    case False
    then show ?thesis using Cons
      by (auto simp: split_path_def eval_nat_numeral Let_def split: list.splits)
  next
    case True
    obtain w ws where ws: "splitn CHR ''/'' 3 cs = w # ws"
      using splitn_ne[of "CHR ''/''" 3 cs] by (cases "splitn CHR ''/'' 3 cs") auto
    have len: "length ws \<le> 3"
      using splitn_length[of "CHR ''/''" 3 cs] ws by simp
    have w: "(w = []) = (cs = [] \<or> (\<exists>q. cs = CHR ''/'' # q))"
      using splitn_first_empty[of "CHR ''/''" 2 cs w ws] ws by (simp add: eval_nat_numeral)
    have segs: "splitn CHR ''/'' 4 p = [] # w # ws"
      using Cons True ws by (simp add: eval_nat_numeral)
    show ?thesis
      using segs len w Cons True
      by (cases cs) (auto simp: split_path_def Let_def)
  qed
qed

lemma denied_not_found: "denied_response req \<noteq> HTTPNotFound"
  by (simp add: denied_response_def)

lemma authorize_account_not_found:
  "fst (authorize_account cfg lib req a obj) \<noteq> Some HTTPNotFound"
  by (auto simp: authorize_account_def denied_response_def split: prod.splits)

lemma authorize_not_found_iff:
  "(fst (authorize cfg lib req) = Some HTTPNotFound) = (split_path (path req) 1 4 = None)"
proof (cases "split_path (path req) 1 4")
  case None
  then show ?thesis by (simp add: authorize_def)
next
  case (Some l)
  then obtain version acct container obj where l: "l = [version, acct, container, obj]"
    using split_path_4_shape by blast
  show ?thesis using Some l
    by (auto simp: authorize_def denied_response_def authorize_account_not_found split: option.splits)
qed

subsection \<open>The owner of an account\<close>

text \<open>
  Claim C1. When the path has a non-empty account segment that starts with the reseller
  prefix, and that segment with the prefix (and the separator after it) cut off equals
  the account of the request's identity, \<open>authorize\<close> returns None (allow) and sets
  \<open>swift_owner\<close> to True, whatever the container's ACL, the referrer and the sync
  headers are. No other rule sets it: when \<open>authorize\<close> changes \<open>swift_owner\<close>,
  the path had such an account segment.
\<close>

theorem owner_is_allowed:
  "(split_path (path req) 1 4 = Some [version, Some a, container, obj]
      \<and> a \<noteq> [] \<and> startswith a (reseller_prefix cfg)
      \<and> account (request_identity req) = Some (strip_reseller_prefix cfg a)
    \<longrightarrow> authorize cfg lib req = (None, req\<lparr>environ := (environ req)\<lparr>swift_owner := True\<rparr>\<rparr>))
   \<and> (swift_owner (environ (snd (authorize cfg lib req))) \<noteq> swift_owner (environ req)
    \<longrightarrow> (\<exists>version a container obj.
           split_path (path req) 1 4 = Some [version, Some a, container, obj]
           \<and> a \<noteq> [] \<and> startswith a (reseller_prefix cfg)
           \<and> account (request_identity req) = Some (strip_reseller_prefix cfg a)))"
proof (intro conjI impI)
  assume "split_path (path req) 1 4 = Some [version, Some a, container, obj]
      \<and> a \<noteq> [] \<and> startswith a (reseller_prefix cfg)
      \<and> account (request_identity req) = Some (strip_reseller_prefix cfg a)"
  then show "authorize cfg lib req = (None, req\<lparr>environ := (environ req)\<lparr>swift_owner := True\<rparr>\<rparr>)"
    by (simp add: authorize_def authorize_account_def)
next
  assume changed: "swift_owner (environ (snd (authorize cfg lib req))) \<noteq> swift_owner (environ req)"
  show "\<exists>version a container obj.
           split_path (path req) 1 4 = Some [version, Some a, container, obj]
           \<and> a \<noteq> [] \<and> startswith a (reseller_prefix cfg)
           \<and> account (request_identity req) = Some (strip_reseller_prefix cfg a)"
  proof (cases "split_path (path req) 1 4")
    case None
    then show ?thesis using changed by (simp add: authorize_def)
  next
    case (Some l)
    then obtain v acct c ob where l: "l = [v, acct, c, ob]"
      using split_path_4_shape by blast
    show ?thesis
    proof (cases acct)
      case None
      then show ?thesis using changed Some l by (simp add: authorize_def)
    next
      case (Some a')
      then show ?thesis using changed \<open>split_path (path req) 1 4 = Some l\<close> l
        by (auto simp: authorize_def authorize_account_def split: if_splits prod.splits)
    qed
  qed
qed

theorem owner_is_allowed_witness:
  "split_path (path owner_request) 1 4
     = Some [Some ''v1'', Some ''AUTH_alice'', Some ''c1'', Some ''obj'']
   \<and> startswith ''AUTH_alice'' (reseller_prefix example_conf)
   \<and> account (request_identity owner_request)
       = Some (strip_reseller_prefix example_conf ''AUTH_alice'')
   \<and> authorize example_conf example_lib owner_request
       = (None, owner_request\<lparr>environ := (environ owner_request)\<lparr>swift_owner := True\<rparr>\<rparr>)
   \<and> swift_owner (environ (snd (authorize example_conf example_lib owner_request)))
       \<noteq> swift_owner (environ owner_request)"
proof -
  have p: "split_path (path owner_request) 1 4
     = Some [Some ''v1'', Some ''AUTH_alice'', Some ''c1'', Some ''obj'']"
    by code_simp
  have s: "startswith ''AUTH_alice'' (reseller_prefix example_conf)"
    by code_simp
  have a: "account (request_identity owner_request)
       = Some (strip_reseller_prefix example_conf ''AUTH_alice'')"
    by code_simp
  have r: "authorize example_conf example_lib owner_request
       = (None, owner_request\<lparr>environ := (environ owner_request)\<lparr>swift_owner := True\<rparr>\<rparr>)"
    using owner_is_allowed [of owner_request "Some ''v1''" "''AUTH_alice''" "Some ''c1''"
        "Some ''obj''" example_conf example_lib] p s a
    by simp
  have o: "swift_owner (environ owner_request) = False"
    by code_simp
  show ?thesis using p s a r o by simp
qed

subsection \<open>A referrer that matches\<close>

text \<open>
  Claim C2, as amended. When the path has an account that passes the prefix gate, the
  caller is not the owner, the container-sync rule does not apply, the request's
  referrer matches a referrer rule of the container's ACL, the path has no object
  segment and the ACL's groups do not contain \<open>.rlistings\<close>, then \<open>authorize\<close>
  returns the denial of \<open>denied_response\<close>: HTTPForbidden when REMOTE_USER is set,
  HTTPUnauthorized when it is not. The roles are not read: the result is the same when
  a role of the identity is one of the ACL's groups.
\<close>

theorem referrer_match_without_listing_denies:
  assumes "split_path (path req) 1 4 = Some [version, Some a, container, obj]"
    and "a \<noteq> []"
    and "startswith a (reseller_prefix cfg)"
    and "account (request_identity req) \<noteq> Some (strip_reseller_prefix cfg a)"
    and "\<not> container_sync cfg lib req"
    and "referrer_allowed lib (HTTP_REFERER (environ req)) (fst (parse_acl (acl req)))"
    and "\<not> truthy obj"
    and "''.rlistings'' \<notin> set (snd (parse_acl (acl req)))"
  shows "authorize cfg lib req
     = (Some (if truthy (REMOTE_USER (environ req)) then HTTPForbidden else HTTPUnauthorized),
        req)"
  using assms
  by (auto simp: authorize_def authorize_account_def denied_response_def split: prod.splits)

theorem referrer_match_without_listing_denies_witness:
  "split_path (path listing_request) 1 4
     = Some [Some ''v1'', Some ''AUTH_alice'', Some ''c1'', None]
   \<and> startswith ''AUTH_alice'' (reseller_prefix example_conf)
   \<and> account (request_identity listing_request)
       \<noteq> Some (strip_reseller_prefix example_conf ''AUTH_alice'')
   \<and> \<not> container_sync example_conf example_lib listing_request
   \<and> referrer_allowed example_lib (HTTP_REFERER (environ listing_request))
        (fst (parse_acl (acl listing_request)))
   \<and> ''.rlistings'' \<notin> set (snd (parse_acl (acl listing_request)))
   \<and> ''staff'' \<in> set (user_roles listing_request)
   \<and> ''staff'' \<in> set (snd (parse_acl (acl listing_request)))
   \<and> authorize example_conf example_lib listing_request = (Some HTTPForbidden, listing_request)"
proof -
  have p: "split_path (path listing_request) 1 4
     = Some [Some ''v1'', Some ''AUTH_alice'', Some ''c1'', None]"
    by code_simp
  have s: "startswith ''AUTH_alice'' (reseller_prefix example_conf)"
    by code_simp
  have a: "account (request_identity listing_request)
       \<noteq> Some (strip_reseller_prefix example_conf ''AUTH_alice'')"
    by code_simp
  have c: "\<not> container_sync example_conf example_lib listing_request"
    by code_simp
  have r: "referrer_allowed example_lib (HTTP_REFERER (environ listing_request))
        (fst (parse_acl (acl listing_request)))"
    by code_simp
  have g: "''.rlistings'' \<notin> set (snd (parse_acl (acl listing_request)))"
    by code_simp
  have u: "''staff'' \<in> set (user_roles listing_request)"
    by code_simp
  have v: "''staff'' \<in> set (snd (parse_acl (acl listing_request)))"
    by code_simp
  have t: "truthy (REMOTE_USER (environ listing_request))"
    by code_simp
  have "authorize example_conf example_lib listing_request = (Some HTTPForbidden, listing_request)"
    using referrer_match_without_listing_denies [OF p _ s a c r _ g] t
    by (simp add: truthy_def)
  then show ?thesis using p s a c r g u v by simp
qed

text \<open>
  The claim as written promises HTTPForbidden for every such call. An anonymous request
  (no identity, no REMOTE_USER) whose referrer matches gets HTTPUnauthorized.
\<close>

theorem referrer_match_anonymous_counterexample:
  "split_path (path anonymous_listing_request) 1 4
     = Some [Some ''v1'', Some ''AUTH_alice'', Some ''c1'', None]
   \<and> referrer_allowed example_lib (HTTP_REFERER (environ anonymous_listing_request))
        (fst (parse_acl (acl anonymous_listing_request)))
   \<and> ''.rlistings'' \<notin> set (snd (parse_acl (acl anonymous_listing_request)))
   \<and> fst (authorize example_conf example_lib anonymous_listing_request) = Some HTTPUnauthorized
   \<and> fst (authorize example_conf example_lib anonymous_listing_request) \<noteq> Some HTTPForbidden"
  by code_simp

subsection \<open>Paths that do not parse\<close>

text \<open>
  Claim C8, as amended. \<open>authorize\<close> returns HTTPNotFound exactly when the path does
  not start with a slash followed by a non-empty first (version) segment. A path that
  has a version segment and no account segment, or an empty one, is not a parse failure:
  it gets the denial of \<open>denied_response\<close>, HTTPForbidden when REMOTE_USER is set and
  HTTPUnauthorized when it is not.
\<close>

theorem not_found_only_without_version:
  "((fst (authorize cfg lib req) = Some HTTPNotFound)
      = (\<not> (\<exists>c q. path req = CHR ''/'' # c # q \<and> c \<noteq> CHR ''/'')))
   \<and> (split_path (path req) 1 4 = Some [version, acct, container, obj] \<and> \<not> truthy acct
      \<longrightarrow> authorize cfg lib req
          = (Some (if truthy (REMOTE_USER (environ req)) then HTTPForbidden
                   else HTTPUnauthorized), req))"
proof (intro conjI impI)
  show "(fst (authorize cfg lib req) = Some HTTPNotFound)
      = (\<not> (\<exists>c q. path req = CHR ''/'' # c # q \<and> c \<noteq> CHR ''/''))"
    using authorize_not_found_iff [of cfg lib req] split_path_4_valid [of "path req"]
    by simp
next
  assume "split_path (path req) 1 4 = Some [version, acct, container, obj] \<and> \<not> truthy acct"
  then show "authorize cfg lib req
          = (Some (if truthy (REMOTE_USER (environ req)) then HTTPForbidden
                   else HTTPUnauthorized), req)"
    by (cases acct) (auto simp: authorize_def denied_response_def truthy_def)
qed

theorem not_found_only_without_version_witness:
  "path no_slash_request = ''v1/AUTH_alice''
   \<and> fst (authorize example_conf example_lib no_slash_request) = Some HTTPNotFound
   \<and> split_path (path version_only_request) 1 4 = Some [Some ''v1'', None, None, None]
   \<and> \<not> truthy None
   \<and> authorize example_conf example_lib version_only_request
       = (Some HTTPUnauthorized, version_only_request)"
proof -
  have n: "path no_slash_request = ''v1/AUTH_alice''"
    by code_simp
  have p: "split_path (path version_only_request) 1 4 = Some [Some ''v1'', None, None, None]"
    by code_simp
  have t: "\<not> truthy None"
    by code_simp
  have u: "\<not> truthy (REMOTE_USER (environ version_only_request))"
    by code_simp
  have "fst (authorize example_conf example_lib no_slash_request) = Some HTTPNotFound"
    using not_found_only_without_version [of example_conf example_lib no_slash_request] n
    by simp
  moreover have "authorize example_conf example_lib version_only_request
       = (Some HTTPUnauthorized, version_only_request)"
    using not_found_only_without_version [of example_conf example_lib version_only_request
        "Some ''v1''" None None None] p t u
    by simp
  ultimately show ?thesis using n p t by simp
qed

text \<open>
  The claim as written promises HTTPNotFound for a path without an account segment. The
  path \<open>/v1\<close> has none, and an anonymous request for it gets HTTPUnauthorized.
\<close>

theorem version_only_path_counterexample:
  "split_path (path version_only_request) 1 4 = Some [Some ''v1'', None, None, None]
   \<and> fst (authorize example_conf example_lib version_only_request) = Some HTTPUnauthorized
   \<and> fst (authorize example_conf example_lib version_only_request) \<noteq> Some HTTPNotFound"
  by code_simp

subsection \<open>Cache lookups and the S3 header\<close>

lemma valid_cache_Some:
  "(valid_cache cfg now r = Some d) = (\<exists>e. r = Some (e, d) \<and> 0 < cache_timeout cfg \<and> now < e)"
  by (auto simp: valid_cache_def split: option.splits)

lemma valid_cache_expired:
  "r = Some (e, d) \<Longrightarrow> e \<le> now \<Longrightarrow> valid_cache cfg now r = None"
  by (simp add: valid_cache_def)

lemma startswith_AWS_truthy: "startswith h ''AWS'' \<Longrightarrow> truthy (Some h)"
  by (auto simp: startswith_def truthy_def)

lemma s3_block_lookup:
  assumes "HTTP_AUTHORIZATION env = Some h" and "startswith h ''AWS''"
    and "split_on CHR '' '' h = w0 # w1 # ws" and "rsplit1 CHR '':'' w1 = [k, sg]"
    and "k \<noteq> []" and "sg \<noteq> []"
  shows "s3_block cfg ext now mc env =
     (case valid_cache cfg now (mauth_s3_apikey mc k) of
        Some data \<Rightarrow> s3_cached cfg ext env k sg data
      | None \<Rightarrow> Inr (None, Unbound, env, [Called_get_s3_identity]))"
  using assms startswith_AWS_truthy [of h] by (simp add: s3_block_def)

lemma native_block_skipped:
  "truthy (HTTP_AUTHORIZATION env) \<Longrightarrow> native_block cfg now mc (i, t, env, cs) = Inr (i, t, env, cs)"
  by (simp add: native_block_def)

subsection \<open>A token request answered from the cache\<close>

text \<open>
  Claim C4, as amended. For a request with no Authorization header whose path's first
  segment is \<open>auth\<close> or \<open>v1.0\<close> and that carries non-empty X-Auth-User and X-Auth-Key:
  when the configured \<open>cache_timeout\<close> is positive and the cache holds an entry for
  the credentials with \<open>expires\<close> in the future, \<open>__call__\<close> answers with the
  response whose x-auth-token and x-storage-token are the cached identity's token and
  whose x-storage-url is its account_url; no provider method is called, the cache is left
  as it was and the next application is not called. This holds for every value of the
  X-Auth-TTL header.
\<close>

theorem cached_credentials_answer_directly:
  assumes "\<not> truthy (HTTP_AUTHORIZATION env)"
    and "split_path (PATH_INFO env) 1 2 = Some [piece, rest]"
    and "piece = Some ''auth'' \<or> piece = Some ''v1.0''"
    and "HTTP_X_AUTH_USER env = Some u" and "u \<noteq> []"
    and "HTTP_X_AUTH_KEY env = Some k" and "k \<noteq> []"
    and "mauth_creds mc (u @ ''/'' @ k) = Some (e, d)"
    and "now < e" and "0 < cache_timeout cfg"
  shows "call cfg ext now mc env = (TokenResponse (token d) (token d) (account_url d), mc, [])"
proof -
  have s3: "s3_block cfg ext now mc env = Inr (None, Unbound, env, [])"
    using assms(1) by (auto simp: s3_block_def)
  have ttl: "ttl_positive env"
    by (simp add: ttl_positive_def split: option.splits)
  have "auth_request cfg now mc (None, Unbound, env, [])
      = Inl (TokenResponse (token d) (token d) (account_url d))"
    using assms ttl by (simp add: auth_request_def truthy_def valid_cache_def)
  then have "native_block cfg now mc (None, Unbound, env, [])
      = Inl (TokenResponse (token d) (token d) (account_url d))"
    using assms(1,2,3) by (auto simp: native_block_def)
  then show ?thesis using s3 by (simp add: call_def)
qed

theorem cached_credentials_answer_directly_witness:
  "\<not> truthy (HTTP_AUTHORIZATION auth_env)
   \<and> split_path (PATH_INFO auth_env) 1 2 = Some [Some ''v1.0'', None]
   \<and> HTTP_X_AUTH_USER auth_env = Some ''alice''
   \<and> HTTP_X_AUTH_KEY auth_env = Some ''k1''
   \<and> mauth_creds warm_cache (''alice'' @ ''/'' @ ''k1'') = Some (4600, alice)
   \<and> (1000::int) < 4600
   \<and> 0 < cache_timeout example_conf
   \<and> call example_conf example_ext 1000 warm_cache auth_env
       = (TokenResponse (Some ''T1'') (Some ''T1'') (Some ''http://127.0.0.1:8080/v1/AUTH_alice''),
          warm_cache, [])"
proof -
  have a: "\<not> truthy (HTTP_AUTHORIZATION auth_env)" by code_simp
  have p: "split_path (PATH_INFO auth_env) 1 2 = Some [Some ''v1.0'', None]" by code_simp
  have u: "HTTP_X_AUTH_USER auth_env = Some ''alice''" by code_simp
  have k: "HTTP_X_AUTH_KEY auth_env = Some ''k1''" by code_simp
  have m: "mauth_creds warm_cache (''alice'' @ ''/'' @ ''k1'') = Some (4600, alice)"
    by (simp add: warm_cache_def)
  have t: "0 < cache_timeout example_conf" by code_simp
  have d: "token alice = Some ''T1''
      \<and> account_url alice = Some ''http://127.0.0.1:8080/v1/AUTH_alice''"
    by (simp add: alice_def)
  have "call example_conf example_ext 1000 warm_cache auth_env
       = (TokenResponse (token alice) (token alice) (account_url alice), warm_cache, [])"
    using cached_credentials_answer_directly [OF a p _ u _ k _ m _ t] by simp
  then show ?thesis using a p u k m t d by simp
qed

text \<open>
  The claim as written does not ask for a positive \<open>cache_timeout\<close>. With
  \<open>cache_timeout = 0\<close> the entry is not read: \<open>get_identity\<close> is called and the
  request goes on to the next application.
\<close>

theorem cache_switched_off_counterexample:
  "fst (call nocache_conf example_ext 1000 warm_cache auth_env)
     = App (auth_env\<lparr>swift_authorize := Some authorize_hook, swift_clean_acl := True\<rparr>)
   \<and> snd (snd (call nocache_conf example_ext 1000 warm_cache auth_env)) = [Called_get_identity]"
  by code_simp

subsection \<open>S3 requests\<close>

text \<open>
  Claim C6. A request whose Authorization header starts with \<open>AWS\<close> and from which no
  access key and signature can be split is to be denied with 401, without a call to the
  provider. For the header \<open>AWS malformed\<close> no provider is called, but \<open>__call__\<close>
  does not deny: \<open>rsplit(':', 1)\<close> gives one part, the assignment to two names raises
  ValueError, and the exception leaves the method.
\<close>

theorem malformed_s3_header_raises:
  "fst (call example_conf example_ext 1000 empty_cache s3_malformed_env) = Raise ValueError
   \<and> snd (snd (call example_conf example_ext 1000 empty_cache s3_malformed_env)) = []"
  by code_simp

text \<open>
  Claim C5. With a live cache entry for the access key and a signature that is not the
  one of the cached secret, the request is to be denied, and \<open>get_s3_identity\<close> is not
  called. No provider is called, but the request is not denied either: the branch for a
  wrong signature assigns neither \<open>identity\<close> nor \<open>token\<close>, and with X-Auth-Token
  set (it carries the string to sign) the token lookup of line 216 reads the unbound
  \<open>token\<close> and raises UnboundLocalError.
\<close>

theorem forged_signature_raises:
  "fst (call example_conf example_ext 1000 warm_cache s3_forged_env) = Raise UnboundLocalError
   \<and> snd (snd (call example_conf example_ext 1000 warm_cache s3_forged_env)) = []"
  by code_simp

text \<open>
  Claim C7. An S3 request that resolves to an identity gets the access-key segment of
  its path replaced by the reseller prefix, an underscore and the account. The cached
  path does it with \<open>str.replace\<close> on the whole path, so an object name that contains
  the access key is rewritten too: \<open>/v1/AKIAXXX/bucket/AKIAXXX.txt\<close> becomes
  \<open>/v1/AUTH_alice/bucket/AUTH_alice.txt\<close>, not \<open>/v1/AUTH_alice/bucket/AKIAXXX.txt\<close>.
\<close>

theorem access_key_replaced_everywhere:
  "fst (call example_conf example_ext 1000 warm_cache s3_repeat_env)
     = App (s3_repeat_env\<lparr>PATH_INFO := ''/v1/AUTH_alice/bucket/AUTH_alice.txt'',
                           mauth_identity := Some alice, REMOTE_USER := Some ''admin'',
                           swift_authorize := Some authorize_hook, swift_clean_acl := True\<rparr>)"
  by code_simp

subsection \<open>Failures while a cached S3 identity is verified\<close>

text \<open>
  What lines 146-147 do for an S3 request with a live cache entry for its access key:
  when the URL-safe base64 decoding of the X-Auth-Token value fails, TypeError leaves
  \<open>__call__\<close>; when the decoded token holds a byte above 127, \<open>encode\<close> raises
  UnicodeDecodeError; when the HMAC computation fails, TypeError leaves it. In each case
  the next application is not called, no hook and no identity is installed, no provider
  method is called and the cache is left as it was.
\<close>

theorem verification_failure_escapes:
  assumes "HTTP_AUTHORIZATION env = Some h" and "startswith h ''AWS''"
    and "split_on CHR '' '' h = w0 # w1 # ws" and "rsplit1 CHR '':'' w1 = [k, sg]"
    and "k \<noteq> []" and "sg \<noteq> []"
    and "mauth_s3_apikey mc k = Some (e, d)" and "0 < cache_timeout cfg" and "now < e"
    and "t = (case HTTP_X_AUTH_TOKEN env of None \<Rightarrow> [] | Some v \<Rightarrow> v)"
    and "key = (case secret d of None \<Rightarrow> [] | Some v \<Rightarrow> v)"
  shows "(urlsafe_b64decode ext t = None
            \<longrightarrow> call cfg ext now mc env = (Raise TypeError, mc, []))
       \<and> (\<forall>raw. urlsafe_b64decode ext t = Some raw \<and> \<not> is_ascii raw
            \<longrightarrow> call cfg ext now mc env = (Raise UnicodeDecodeError, mc, []))
       \<and> (\<forall>raw. urlsafe_b64decode ext t = Some raw \<and> is_ascii raw
                 \<and> hmac_sha1_digest ext key raw = None
            \<longrightarrow> call cfg ext now mc env = (Raise TypeError, mc, []))"
proof -
  have v: "valid_cache cfg now (mauth_s3_apikey mc k) = Some d"
    using assms(7,8,9) by (simp add: valid_cache_def)
  have b: "s3_block cfg ext now mc env = s3_cached cfg ext env k sg d"
    using s3_block_lookup [OF assms(1-6)] v by simp
  show ?thesis
    using assms(10,11) by (auto simp: call_def b s3_cached_def)
qed

theorem verification_failure_escapes_witness:
  "call example_conf example_ext 1000 warm_cache s3_bad_token_env
     = (Raise TypeError, warm_cache, [])
   \<and> call example_conf example_ext 1000 warm_cache s3_high_byte_env
     = (Raise UnicodeDecodeError, warm_cache, [])
   \<and> call example_conf unicode_secret_ext 1000 warm_cache s3_env
     = (Raise TypeError, warm_cache, [])"
proof -
  let ?h = "''AWS AKIAXXX:cxwKrgJ3dHLbZ7U5LgatetGbiOY=''"
  let ?w = "''AKIAXXX:cxwKrgJ3dHLbZ7U5LgatetGbiOY=''"
  let ?entry = "\<lparr>secret = Some ''s3secret'', s3_identity = Some alice\<rparr>"
  have sw: "startswith ?h ''AWS''" by code_simp
  have sp: "split_on CHR '' '' ?h = ''AWS'' # ?w # []" by code_simp
  have rs: "rsplit1 CHR '':'' ?w = [''AKIAXXX'', ''cxwKrgJ3dHLbZ7U5LgatetGbiOY='']" by code_simp
  have m: "mauth_s3_apikey warm_cache ''AKIAXXX'' = Some (4600, ?entry)"
    by (simp add: warm_cache_def)
  have ct: "0 < cache_timeout example_conf" by code_simp
  have h1: "HTTP_AUTHORIZATION s3_bad_token_env = Some ?h" by code_simp
  have h2: "HTTP_AUTHORIZATION s3_high_byte_env = Some ?h" by code_simp
  have h3: "HTTP_AUTHORIZATION s3_env = Some ?h" by code_simp
  have d1: "urlsafe_b64decode example_ext
      (case HTTP_X_AUTH_TOKEN s3_bad_token_env of None \<Rightarrow> [] | Some v \<Rightarrow> v) = None"
    by code_simp
  have d2: "urlsafe_b64decode example_ext
      (case HTTP_X_AUTH_TOKEN s3_high_byte_env of None \<Rightarrow> [] | Some v \<Rightarrow> v)
        = Some [char_of (255 :: nat)]
      \<and> \<not> is_ascii [char_of (255 :: nat)]"
    by code_simp
  have d3: "urlsafe_b64decode unicode_secret_ext
      (case HTTP_X_AUTH_TOKEN s3_env of None \<Rightarrow> [] | Some v \<Rightarrow> v) = Some ''challenge''
      \<and> is_ascii ''challenge''
      \<and> hmac_sha1_digest unicode_secret_ext
           (case secret ?entry of None \<Rightarrow> [] | Some v \<Rightarrow> v) ''challenge'' = None"
    by code_simp
  have c1: "call example_conf example_ext 1000 warm_cache s3_bad_token_env
     = (Raise TypeError, warm_cache, [])"
    using verification_failure_escapes [OF h1 sw sp rs _ _ m ct _ refl refl, of 1000 example_ext] d1
    by simp
  have c2: "call example_conf example_ext 1000 warm_cache s3_high_byte_env
     = (Raise UnicodeDecodeError, warm_cache, [])"
    using verification_failure_escapes [OF h2 sw sp rs _ _ m ct _ refl refl, of 1000 example_ext] d2
    by simp
  have c3: "call example_conf unicode_secret_ext 1000 warm_cache s3_env
     = (Raise TypeError, warm_cache, [])"
    using verification_failure_escapes [OF h3 sw sp rs _ _ m ct _ refl refl, of 1000 unicode_secret_ext] d3
    by simp
  show ?thesis using c1 c2 c3 by simp
qed

text \<open>
  Claim C10. While a cached S3 identity is verified, a failure to decode the
  X-Auth-Token value or to compute the signature is to be a failed verification: the
  request is denied and no exception escapes. \<open>__call__\<close> has no handler around
  lines 146-147 and installs no \<open>denied_response\<close> hook there, as the branches at
  lines 159-162, 198-201 and 231-234 do: with the X-Auth-Token value \<open>a\<close>, which is
  not base64, TypeError leaves \<open>__call__\<close>.
\<close>

theorem undecodable_token_raises:
  "fst (call example_conf example_ext 1000 warm_cache s3_bad_token_env) = Raise TypeError
   \<and> snd (snd (call example_conf example_ext 1000 warm_cache s3_bad_token_env)) = []"
  by code_simp

subsection \<open>Anonymous requests\<close>

lemma authorize_without_identity:
  assumes "mauth_identity (environ req) = None"
    and "split_path (path req) 1 4 \<noteq> None"
    and "\<not> container_sync cfg lib req"
    and "\<not> referrer_allowed lib (HTTP_REFERER (environ req)) (fst (parse_acl (acl req)))"
  shows "authorize cfg lib req = (Some (denied_response req), req)"
proof -
  obtain l where l: "split_path (path req) 1 4 = Some l"
    using assms(2) by auto
  then obtain v acct c ob where s: "l = [v, acct, c, ob]"
    using split_path_4_shape by blast
  have i: "request_identity req = empty_identity"
    using assms(1) by (simp add: request_identity_def)
  have r: "user_roles req = []"
    using i by (simp add: user_roles_def empty_identity_def)
  have a: "account (request_identity req) = None"
    using i by (simp add: empty_identity_def)
  show ?thesis
    using l s r a assms(3,4)
    by (cases acct) (auto simp: authorize_def authorize_account_def split: prod.splits)
qed

text \<open>
  Claim C9, as amended. For a request with no X-Auth-Token and no X-Storage-Token value
  that either carries an Authorization header that does not start with \<open>AWS\<close>, or
  carries no Authorization header and has a path whose first segment parses and is
  neither \<open>auth\<close> nor \<open>v1.0\<close>: \<open>__call__\<close> hands the request to the next
  application with the \<open>authorize\<close> hook and \<open>clean_acl\<close> installed, the identity
  and REMOTE_USER of the environment untouched, and no provider call. A later
  \<open>authorize\<close> call on that environment with no identity, a path that parses, no
  container sync and no matching referrer returns the denial of \<open>denied_response\<close>:
  HTTPUnauthorized when REMOTE_USER is not set, HTTPForbidden when it is.
\<close>

theorem anonymous_request_passes_through:
  assumes "\<not> truthy (request_token env)"
    and "(\<exists>h. HTTP_AUTHORIZATION env = Some h \<and> h \<noteq> [] \<and> \<not> startswith h ''AWS'')
         \<or> (\<not> truthy (HTTP_AUTHORIZATION env)
             \<and> (\<exists>piece rest. split_path (PATH_INFO env) 1 2 = Some [piece, rest]
                   \<and> piece \<noteq> Some ''auth'' \<and> piece \<noteq> Some ''v1.0''))"
    and "env' = env\<lparr>swift_authorize := Some authorize_hook, swift_clean_acl := True\<rparr>"
  shows "call cfg ext now mc env = (App env', mc, [])
     \<and> mauth_identity env' = mauth_identity env
     \<and> REMOTE_USER env' = REMOTE_USER env
     \<and> (\<forall>req. environ req = env' \<and> mauth_identity env = None
              \<and> split_path (path req) 1 4 \<noteq> None
              \<and> \<not> container_sync cfg lib req
              \<and> \<not> referrer_allowed lib (HTTP_REFERER (environ req)) (fst (parse_acl (acl req)))
           \<longrightarrow> authorize cfg lib req
               = (Some (if truthy (REMOTE_USER env) then HTTPForbidden else HTTPUnauthorized),
                  req))"
proof (intro conjI allI impI)
  have s3: "s3_block cfg ext now mc env = Inr (None, Unbound, env, [])"
    using assms(2) by (auto simp: s3_block_def)
  have anon: "\<And>tok. token_block cfg ext now mc (None, tok, env, []) = (App env', mc, [])"
    using assms(1,3) by (simp add: token_block_def identity_truthy_def)
  from assms(2) show "call cfg ext now mc env = (App env', mc, [])"
  proof
    assume "\<exists>h. HTTP_AUTHORIZATION env = Some h \<and> h \<noteq> [] \<and> \<not> startswith h ''AWS''"
    then have "truthy (HTTP_AUTHORIZATION env)"
      by (auto simp: truthy_def)
    then show ?thesis
      using s3 anon by (simp add: call_def native_block_skipped)
  next
    assume "\<not> truthy (HTTP_AUTHORIZATION env)
             \<and> (\<exists>piece rest. split_path (PATH_INFO env) 1 2 = Some [piece, rest]
                   \<and> piece \<noteq> Some ''auth'' \<and> piece \<noteq> Some ''v1.0'')"
    then have "native_block cfg now mc (None, Unbound, env, [])
        = Inr (None, Bound (request_token env), env, [])"
      by (auto simp: native_block_def)
    then show ?thesis
      using s3 anon by (simp add: call_def)
  qed
next
  show "mauth_identity env' = mauth_identity env"
    using assms(3) by simp
next
  show "REMOTE_USER env' = REMOTE_USER env"
    using assms(3) by simp
next
  fix req
  assume h: "environ req = env' \<and> mauth_identity env = None
              \<and> split_path (path req) 1 4 \<noteq> None
              \<and> \<not> container_sync cfg lib req
              \<and> \<not> referrer_allowed lib (HTTP_REFERER (environ req)) (fst (parse_acl (acl req)))"
  then have "mauth_identity (environ req) = None"
    using assms(3) by simp
  then have "authorize cfg lib req = (Some (denied_response req), req)"
    using h authorize_without_identity by blast
  moreover have "REMOTE_USER (environ req) = REMOTE_USER env"
    using h assms(3) by simp
  ultimately show "authorize cfg lib req
               = (Some (if truthy (REMOTE_USER env) then HTTPForbidden else HTTPUnauthorized),
                  req)"
    by (simp add: denied_response_def)
qed

theorem anonymous_request_passes_through_witness:
  "\<not> truthy (request_token anonymous_env)
   \<and> \<not> truthy (HTTP_AUTHORIZATION anonymous_env)
   \<and> split_path (PATH_INFO anonymous_env) 1 2 = Some [Some ''v1'', Some ''AUTH_alice/c1/obj'']
   \<and> call example_conf example_ext 1000 empty_cache anonymous_env
       = (App (environ forwarded_anonymous_request), empty_cache, [])
   \<and> swift_authorize (environ forwarded_anonymous_request) = Some authorize_hook
   \<and> mauth_identity (environ forwarded_anonymous_request) = None
   \<and> split_path (path forwarded_anonymous_request) 1 4 \<noteq> None
   \<and> \<not> container_sync example_conf example_lib forwarded_anonymous_request
   \<and> \<not> referrer_allowed example_lib (HTTP_REFERER (environ forwarded_anonymous_request))
          (fst (parse_acl (acl forwarded_anonymous_request)))
   \<and> authorize example_conf example_lib forwarded_anonymous_request
       = (Some HTTPUnauthorized, forwarded_anonymous_request)"
proof -
  let ?env' = "anonymous_env\<lparr>swift_authorize := Some authorize_hook, swift_clean_acl := True\<rparr>"
  have t: "\<not> truthy (request_token anonymous_env)" by code_simp
  have a: "\<not> truthy (HTTP_AUTHORIZATION anonymous_env)" by code_simp
  have p: "split_path (PATH_INFO anonymous_env) 1 2 = Some [Some ''v1'', Some ''AUTH_alice/c1/obj'']"
    by code_simp
  have e: "environ forwarded_anonymous_request = ?env'"
    by (simp add: forwarded_anonymous_request_def)
  have i: "mauth_identity anonymous_env = None" by code_simp
  have i': "mauth_identity (environ forwarded_anonymous_request) = None" by code_simp
  have h: "swift_authorize (environ forwarded_anonymous_request) = Some authorize_hook" by code_simp
  have q: "split_path (path forwarded_anonymous_request) 1 4 \<noteq> None" by code_simp
  have c: "\<not> container_sync example_conf example_lib forwarded_anonymous_request" by code_simp
  have r: "\<not> referrer_allowed example_lib (HTTP_REFERER (environ forwarded_anonymous_request))
          (fst (parse_acl (acl forwarded_anonymous_request)))" by code_simp
  have u: "\<not> truthy (REMOTE_USER anonymous_env)" by code_simp
  have alt: "(\<exists>h. HTTP_AUTHORIZATION anonymous_env = Some h \<and> h \<noteq> [] \<and> \<not> startswith h ''AWS'')
         \<or> (\<not> truthy (HTTP_AUTHORIZATION anonymous_env)
             \<and> (\<exists>piece rest. split_path (PATH_INFO anonymous_env) 1 2 = Some [piece, rest]
                   \<and> piece \<noteq> Some ''auth'' \<and> piece \<noteq> Some ''v1.0''))"
    using a p by simp
  note inst = anonymous_request_passes_through
    [OF t alt refl, of example_conf example_ext 1000 empty_cache example_lib]
  have c1: "call example_conf example_ext 1000 empty_cache anonymous_env
       = (App (environ forwarded_anonymous_request), empty_cache, [])"
    using inst e by simp
  have c2: "authorize example_conf example_lib forwarded_anonymous_request
       = (Some HTTPUnauthorized, forwarded_anonymous_request)"
    using inst e i q c r u by simp
  show ?thesis using t a p c1 h i' q c r c2 by simp
qed

text \<open>
  The claim as written covers every request without an S3 header and without a token.
  A request for \<open>/v1.0\<close> without credentials is such a request, and it is handed on
  with the \<open>denied_response\<close> hook, not the \<open>authorize\<close> hook.
\<close>

theorem auth_url_without_credentials_counterexample:
  "fst (call example_conf example_ext 1000 empty_cache auth_no_creds_env)
     = App (auth_no_creds_env\<lparr>swift_authorize := Some denied_response_hook\<rparr>)"
  by code_simp

subsection \<open>Where the identity of a request comes from\<close>

lemma s3_cached_identity:
  "s3_cached cfg ext env k sg d = Inr (ident, tok, env', calls)
   \<Longrightarrow> mauth_identity env' = mauth_identity env \<and> calls = []
       \<and> (ident = None \<or> ident = s3_identity d)"
  by (auto simp: s3_cached_def split: option.splits if_splits)

lemma rsplit1_shape: "rsplit1 sep s = [s] \<or> (\<exists>a b. rsplit1 sep s = [a, b])"
  by (simp add: rsplit1_def Let_def)

lemma s3_block_Inr:
  assumes "s3_block cfg ext now mc env = Inr loc"
  shows "loc = (None, Unbound, env, [])
     \<or> (\<exists>k sg. (case valid_cache cfg now (mauth_s3_apikey mc k) of
                   Some data \<Rightarrow> s3_cached cfg ext env k sg data
                 | None \<Rightarrow> Inr (None, Unbound, env, [Called_get_s3_identity])) = Inr loc)"
proof (cases "truthy (HTTP_AUTHORIZATION env)
         \<and> startswith (case HTTP_AUTHORIZATION env of None \<Rightarrow> [] | Some s \<Rightarrow> s) ''AWS''")
  case False
  then show ?thesis using assms by (auto simp: s3_block_def)
next
  case True
  let ?h = "case HTTP_AUTHORIZATION env of None \<Rightarrow> [] | Some s \<Rightarrow> s"
  show ?thesis
  proof (cases "split_on CHR '' '' ?h")
    case Nil
    then show ?thesis using assms True by (simp add: s3_block_def)
  next
    case (Cons w0 rest)
    show ?thesis
    proof (cases rest)
      case Nil
      then show ?thesis using assms True Cons by (simp add: s3_block_def)
    next
      case (Cons w1 ws)
      note sp = \<open>split_on CHR '' '' ?h = w0 # rest\<close> Cons
      from rsplit1_shape [of "CHR '':''" w1] show ?thesis
      proof
        assume "rsplit1 CHR '':'' w1 = [w1]"
        then show ?thesis using assms True sp by (simp add: s3_block_def)
      next
        assume "\<exists>a b. rsplit1 CHR '':'' w1 = [a, b]"
        then obtain a b where ab: "rsplit1 CHR '':'' w1 = [a, b]" by blast
        show ?thesis
        proof (cases "a \<noteq> [] \<and> b \<noteq> []")
          case False
          then show ?thesis using assms True sp ab by (auto simp: s3_block_def)
        next
          case ne: True
          then have "(case valid_cache cfg now (mauth_s3_apikey mc a) of
                   Some data \<Rightarrow> s3_cached cfg ext env a b data
                 | None \<Rightarrow> Inr (None, Unbound, env, [Called_get_s3_identity])) = Inr loc"
            using assms True sp ab by (simp add: s3_block_def)
          then show ?thesis by blast
        qed
      qed
    qed
  qed
qed

lemma s3_block_identity:
  assumes "s3_block cfg ext now mc env = Inr (ident, tok, env', calls)"
  shows "mauth_identity env' = mauth_identity env
     \<and> (ident = None
        \<or> (\<exists>k e d. mauth_s3_apikey mc k = Some (e, d) \<and> now < e \<and> s3_identity d = ident))"
proof -
  from s3_block_Inr [OF assms] show ?thesis
  proof
    assume "(ident, tok, env', calls) = (None, Unbound, env, [])"
    then have "ident = None" and "env' = env" by simp_all
    then show ?thesis by simp
  next
    assume "\<exists>k sg. (case valid_cache cfg now (mauth_s3_apikey mc k) of
                   Some data \<Rightarrow> s3_cached cfg ext env k sg data
                 | None \<Rightarrow> Inr (None, Unbound, env, [Called_get_s3_identity]))
              = Inr (ident, tok, env', calls)"
    then obtain k sg where eq: "(case valid_cache cfg now (mauth_s3_apikey mc k) of
                   Some data \<Rightarrow> s3_cached cfg ext env k sg data
                 | None \<Rightarrow> Inr (None, Unbound, env, [Called_get_s3_identity]))
              = Inr (ident, tok, env', calls)"
      by blast
    show ?thesis
    proof (cases "valid_cache cfg now (mauth_s3_apikey mc k)")
      case None
      then have "ident = None" and "env' = env" using eq by simp_all
      then show ?thesis by simp
    next
      case (Some d)
      then have "\<exists>e. mauth_s3_apikey mc k = Some (e, d) \<and> 0 < cache_timeout cfg \<and> now < e"
        by (simp only: valid_cache_Some)
      then obtain e where m: "mauth_s3_apikey mc k = Some (e, d)" and f: "now < e"
        by blast
      have c: "s3_cached cfg ext env k sg d = Inr (ident, tok, env', calls)"
        using eq Some by simp
      have i: "mauth_identity env' = mauth_identity env"
        and j: "ident = None \<or> ident = s3_identity d"
        using s3_cached_identity [OF c] by simp_all
      from j show ?thesis
      proof
        assume "ident = None"
        then show ?thesis using i by simp
      next
        assume "ident = s3_identity d"
        then have "mauth_s3_apikey mc k = Some (e, d) \<and> now < e \<and> s3_identity d = ident"
          using m f by simp
        then have "\<exists>k e d. mauth_s3_apikey mc k = Some (e, d) \<and> now < e \<and> s3_identity d = ident"
          by blast
        then show ?thesis using i by simp
      qed
    qed
  qed
qed

lemma auth_request_Inr:
  "auth_request cfg now mc (ident, tok, env, calls) = Inr (ident', tok', env', calls')
   \<Longrightarrow> ident' = ident \<and> env' = env"
  by (simp add: auth_request_def split: if_splits option.splits)

lemma native_block_identity:
  assumes "native_block cfg now mc (ident, tok, env, calls) = Inr (ident', tok', env', calls')"
  shows "ident' = ident \<and> env' = env"
proof (cases "truthy (HTTP_AUTHORIZATION env)")
  case True
  then show ?thesis using assms by (simp add: native_block_def)
next
  case False
  show ?thesis
  proof (cases "split_path (PATH_INFO env) 1 2")
    case None
    then show ?thesis using assms False by (simp add: native_block_def)
  next
    case (Some l)
    show ?thesis
    proof (cases "\<exists>a b. l = [a, b]")
      case False
      then have "native_block cfg now mc (ident, tok, env, calls) = Inl ReturnNotFound"
        using Some \<open>\<not> truthy (HTTP_AUTHORIZATION env)\<close>
        by (cases l; simp add: native_block_def; cases "tl l"; simp; cases "tl (tl l)"; simp)
      then show ?thesis using assms by simp
    next
      case True
      then obtain a b where "l = [a, b]" by blast
      then show ?thesis
        using assms Some \<open>\<not> truthy (HTTP_AUTHORIZATION env)\<close> auth_request_Inr
        by (cases "a = Some ''auth'' \<or> a = Some ''v1.0''") (auto simp: native_block_def)
    qed
  qed
qed

lemma install_identity:
  "install env i = App env' \<Longrightarrow> mauth_identity env' = Some i"
  by (cases "roles i") (auto simp: install_def)

lemma validate_calls:
  "snd (snd (validate ext mc env calls t)) = calls @ [Called_validate_token t]"
  by (simp add: validate_def split: option.splits)

lemma validate_identity:
  assumes "validate ext mc env calls t = (App env', mc', calls')"
    and "mauth_identity env = None" and "mauth_identity env' = Some i"
  shows "validate_token ext t = Some i \<and> Called_validate_token t \<in> set calls'"
proof -
  have c: "calls' = calls @ [Called_validate_token t]"
    using validate_calls [of ext mc env calls t] assms(1) by simp
  show ?thesis
  proof (cases "validate_token ext t")
    case None
    then have "env' = env\<lparr>swift_authorize := Some denied_response_hook\<rparr>"
      using assms(1) by (simp add: validate_def)
    then show ?thesis using assms(2,3) by simp
  next
    case (Some j)
    show ?thesis
    proof (cases "j = empty_identity")
      case True
      then have "env' = env\<lparr>swift_authorize := Some denied_response_hook\<rparr>"
        using assms(1) Some by (simp add: validate_def)
      then show ?thesis using assms(2,3) by simp
    next
      case False
      then obtain e where e: "expires j = Some e"
        using assms(1) Some by (cases "expires j") (simp_all add: validate_def)
      then have "(if fromtimestamp_ok ext e then install env j else Raise ValueError) = App env'"
        using assms(1) Some False by (simp add: validate_def)
      then have "install env j = App env'"
        by (cases "fromtimestamp_ok ext e") simp_all
      then have "j = i" using install_identity [of env j env'] assms(3) by simp
      then show ?thesis using Some c by simp
    qed
  qed
qed

lemma token_block_identity:
  assumes "token_block cfg ext now mc (ident, tok, env, calls) = (App env', mc', calls')"
    and "mauth_identity env = None" and "mauth_identity env' = Some i"
  shows "ident = Some i
     \<or> (\<exists>t e. mauth_token mc t = Some (e, i) \<and> now < e)
     \<or> (\<exists>t. validate_token ext t = Some i \<and> Called_validate_token t \<in> set calls')"
proof (cases "identity_truthy ident")
  case True
  then obtain j where j: "ident = Some j"
    by (cases ident) (simp_all add: identity_truthy_def)
  then have "install env j = App env'"
    using assms(1) True by (simp add: token_block_def)
  then have "j = i" using install_identity [of env j env'] assms(3) by simp
  then show ?thesis using j by simp
next
  case False
  show ?thesis
  proof (cases "truthy (request_token env)")
    case no: False
    then have "env' = env\<lparr>swift_authorize := Some authorize_hook, swift_clean_acl := True\<rparr>"
      using assms(1) False by (simp add: token_block_def)
    then show ?thesis using assms(2,3) by simp
  next
    case yes: True
    show ?thesis
    proof (cases tok)
      case Unbound
      then show ?thesis using assms(1) False yes by (simp add: token_block_def)
    next
      case (Bound t)
      show ?thesis
      proof (cases "valid_cache cfg now (mauth_token mc (format_token t))")
        case None
        then have "validate ext mc env calls t = (App env', mc', calls')"
          using assms(1) False yes Bound by (simp add: token_block_def)
        then have "validate_token ext t = Some i \<and> Called_validate_token t \<in> set calls'"
          using validate_identity assms(2,3) by blast
        then show ?thesis by blast
      next
        case (Some j)
        then have "\<exists>e. mauth_token mc (format_token t) = Some (e, j)
                      \<and> 0 < cache_timeout cfg \<and> now < e"
          by (simp only: valid_cache_Some)
        then obtain e where c: "mauth_token mc (format_token t) = Some (e, j)" and f: "now < e"
          by blast
        show ?thesis
        proof (cases "j = empty_identity")
          case True
          then have "validate ext mc env calls t = (App env', mc', calls')"
            using assms(1) False yes Bound Some by (simp add: token_block_def)
          then have "validate_token ext t = Some i \<and> Called_validate_token t \<in> set calls'"
            using validate_identity assms(2,3) by blast
          then show ?thesis by blast
        next
          case nonempty: False
          then have "install env j = App env'"
            using assms(1) False yes Bound Some by (simp add: token_block_def)
          then have "j = i" using install_identity [of env j env'] assms(3) by simp
          then have "mauth_token mc (format_token t) = Some (e, i) \<and> now < e"
            using c f by simp
          then show ?thesis by blast
        qed
      qed
    qed
  qed
qed

lemma s3_cached_Inl:
  "s3_cached cfg ext env k sg d = Inl out \<Longrightarrow> \<exists>err. out = Raise err"
  by (auto simp: s3_cached_def split: option.splits if_splits)

lemma s3_block_Inl_App:
  assumes "s3_block cfg ext now mc env = Inl (App env')"
  shows "env' = env\<lparr>swift_authorize := Some denied_response_hook\<rparr>"
proof (cases "truthy (HTTP_AUTHORIZATION env)
         \<and> startswith (case HTTP_AUTHORIZATION env of None \<Rightarrow> [] | Some s \<Rightarrow> s) ''AWS''")
  case False
  then show ?thesis using assms by (auto simp: s3_block_def)
next
  case True
  let ?h = "case HTTP_AUTHORIZATION env of None \<Rightarrow> [] | Some s \<Rightarrow> s"
  show ?thesis
  proof (cases "split_on CHR '' '' ?h")
    case Nil
    then show ?thesis using assms True by (simp add: s3_block_def)
  next
    case (Cons w0 rest)
    show ?thesis
    proof (cases rest)
      case Nil
      then show ?thesis using assms True Cons by (simp add: s3_block_def)
    next
      case (Cons w1 ws)
      note sp = \<open>split_on CHR '' '' ?h = w0 # rest\<close> Cons
      from rsplit1_shape [of "CHR '':''" w1] show ?thesis
      proof
        assume "rsplit1 CHR '':'' w1 = [w1]"
        then show ?thesis using assms True sp by (simp add: s3_block_def)
      next
        assume "\<exists>a b. rsplit1 CHR '':'' w1 = [a, b]"
        then obtain a b where ab: "rsplit1 CHR '':'' w1 = [a, b]" by blast
        show ?thesis
        proof (cases "a \<noteq> [] \<and> b \<noteq> []")
          case False
          then show ?thesis using assms True sp ab by (auto simp: s3_block_def)
        next
          case ne: True
          then have eq: "(case valid_cache cfg now (mauth_s3_apikey mc a) of
                   Some data \<Rightarrow> s3_cached cfg ext env a b data
                 | None \<Rightarrow> Inr (None, Unbound, env, [Called_get_s3_identity])) = Inl (App env')"
            using assms True sp ab by (simp add: s3_block_def)
          show ?thesis
          proof (cases "valid_cache cfg now (mauth_s3_apikey mc a)")
            case None
            then show ?thesis using eq by simp
          next
            case (Some d)
            then have "s3_cached cfg ext env a b d = Inl (App env')" using eq by simp
            then show ?thesis using s3_cached_Inl by blast
          qed
        qed
      qed
    qed
  qed
qed

lemma auth_request_Inl_App:
  "auth_request cfg now mc (ident, tok, env, calls) = Inl (App env')
   \<Longrightarrow> env' = env\<lparr>swift_authorize := Some denied_response_hook\<rparr>"
  by (simp add: auth_request_def split: if_splits option.splits)

lemma native_block_Inl_App:
  assumes "native_block cfg now mc (ident, tok, env, calls) = Inl (App env')"
  shows "env' = env\<lparr>swift_authorize := Some denied_response_hook\<rparr>"
proof (cases "truthy (HTTP_AUTHORIZATION env)")
  case True
  then show ?thesis using assms by (simp add: native_block_def)
next
  case False
  show ?thesis
  proof (cases "split_path (PATH_INFO env) 1 2")
    case None
    then show ?thesis using assms False by (simp add: native_block_def)
  next
    case (Some l)
    show ?thesis
    proof (cases "\<exists>a b. l = [a, b]")
      case False
      then have "native_block cfg now mc (ident, tok, env, calls) = Inl ReturnNotFound"
        using Some \<open>\<not> truthy (HTTP_AUTHORIZATION env)\<close>
        by (cases l; simp add: native_block_def; cases "tl l"; simp; cases "tl (tl l)"; simp)
      then show ?thesis using assms by simp
    next
      case True
      then obtain a b where "l = [a, b]" by blast
      then show ?thesis
        using assms Some \<open>\<not> truthy (HTTP_AUTHORIZATION env)\<close> auth_request_Inl_App
        by (cases "a = Some ''auth'' \<or> a = Some ''v1.0''") (auto simp: native_block_def)
    qed
  qed
qed

lemma call_identity:
  assumes "mauth_identity env = None"
    and "fst (call cfg ext now mc env) = App env'"
    and "mauth_identity env' = Some i"
  shows "(\<exists>t. validate_token ext t = Some i
            \<and> Called_validate_token t \<in> set (snd (snd (call cfg ext now mc env))))
     \<or> (\<exists>k e d. mauth_s3_apikey mc k = Some (e, d) \<and> now < e \<and> s3_identity d = Some i)
     \<or> (\<exists>t e. mauth_token mc t = Some (e, i) \<and> now < e)"
proof (cases "s3_block cfg ext now mc env")
  case (Inl out)
  then have "out = App env'" using assms(2) by (simp add: call_def)
  then have "env' = env\<lparr>swift_authorize := Some denied_response_hook\<rparr>"
    using Inl s3_block_Inl_App by blast
  then show ?thesis using assms(1,3) by simp
next
  case (Inr loc)
  obtain ident tok env1 calls where loc: "loc = (ident, tok, env1, calls)"
    by (cases loc) auto
  have s3: "mauth_identity env1 = mauth_identity env
     \<and> (ident = None
        \<or> (\<exists>k e d. mauth_s3_apikey mc k = Some (e, d) \<and> now < e \<and> s3_identity d = ident))"
    using s3_block_identity [of cfg ext now mc env ident tok env1 calls] Inr loc by simp
  show ?thesis
  proof (cases "native_block cfg now mc loc")
    case out: (Inl out)
    then have o: "out = App env'" using assms(2) Inr by (simp add: call_def)
    have "env' = env1\<lparr>swift_authorize := Some denied_response_hook\<rparr>"
      using out o loc native_block_Inl_App by blast
    then show ?thesis using assms(1,3) s3 by simp
  next
    case next_loc: (Inr loc')
    obtain ident' tok' env2 calls' where loc': "loc' = (ident', tok', env2, calls')"
      by (cases loc') auto
    have same: "ident' = ident \<and> env2 = env1"
      using native_block_identity [of cfg now mc ident tok env1 calls ident' tok' env2 calls']
        next_loc loc loc' by simp
    have c: "call cfg ext now mc env = token_block cfg ext now mc (ident, tok', env1, calls')"
      using Inr next_loc loc' same by (simp add: call_def)
    obtain mc' calls'' where
      t: "token_block cfg ext now mc (ident, tok', env1, calls') = (App env', mc', calls'')"
      using assms(2) c by (cases "token_block cfg ext now mc (ident, tok', env1, calls')") auto
    have n: "mauth_identity env1 = None" using s3 assms(1) by simp
    from token_block_identity [OF t n assms(3)] show ?thesis
    proof (elim disjE)
      assume "ident = Some i"
      then have "\<exists>k e d. mauth_s3_apikey mc k = Some (e, d) \<and> now < e \<and> s3_identity d = Some i"
        using s3 by simp
      then show ?thesis by blast
    next
      assume "\<exists>t e. mauth_token mc t = Some (e, i) \<and> now < e"
      then show ?thesis by blast
    next
      assume "\<exists>t. validate_token ext t = Some i \<and> Called_validate_token t \<in> set calls''"
      then have "\<exists>t. validate_token ext t = Some i
            \<and> Called_validate_token t \<in> set (snd (snd (call cfg ext now mc env)))"
        using c t by simp
      then show ?thesis by blast
    qed
  qed
qed

lemma token_block_no_identity:
  "token_block cfg ext now mc (None, Unbound, env, calls)
     = (if truthy (request_token env) then Raise UnboundLocalError
        else App (env\<lparr>swift_authorize := Some authorize_hook, swift_clean_acl := True\<rparr>),
        mc, calls)"
  by (simp add: token_block_def identity_truthy_def)

lemma s3_block_no_header:
  "\<not> truthy (HTTP_AUTHORIZATION env) \<Longrightarrow> s3_block cfg ext now mc env = Inr (None, Unbound, env, [])"
  by (simp add: s3_block_def)

lemma expired_s3_entry:
  assumes "HTTP_AUTHORIZATION env = Some h" and "startswith h ''AWS''"
    and "split_on CHR '' '' h = w0 # w1 # ws" and "rsplit1 CHR '':'' w1 = [k, sg]"
    and "k \<noteq> []" and "sg \<noteq> []"
    and "mauth_s3_apikey mc k = Some (e, d)" and "e \<le> now"
  shows "call cfg ext now mc env
        = (if truthy (request_token env) then Raise UnboundLocalError
           else App (env\<lparr>swift_authorize := Some authorize_hook, swift_clean_acl := True\<rparr>),
           mc, [Called_get_s3_identity])"
proof -
  have v: "valid_cache cfg now (mauth_s3_apikey mc k) = None"
    using assms(7,8) by (rule valid_cache_expired)
  have b: "s3_block cfg ext now mc env = Inr (None, Unbound, env, [Called_get_s3_identity])"
    using s3_block_lookup [OF assms(1-6), of cfg ext now mc] v by simp
  have t: "truthy (HTTP_AUTHORIZATION env)"
    using assms(1) startswith_AWS_truthy [OF assms(2)] by simp
  have n: "native_block cfg now mc (None, Unbound, env, [Called_get_s3_identity])
      = Inr (None, Unbound, env, [Called_get_s3_identity])"
    using t by (rule native_block_skipped)
  show ?thesis
    by (simp add: call_def b n token_block_no_identity)
qed

lemma expired_creds_entry:
  assumes "\<not> truthy (HTTP_AUTHORIZATION env)"
    and "split_path (PATH_INFO env) 1 2 = Some [piece, rest]"
    and "piece = Some ''auth'' \<or> piece = Some ''v1.0''"
    and "HTTP_X_AUTH_USER env = Some u" and "u \<noteq> []"
    and "HTTP_X_AUTH_KEY env = Some ky" and "ky \<noteq> []"
    and "mauth_creds mc (u @ ''/'' @ ky) = Some (e, i)" and "e \<le> now"
  shows "call cfg ext now mc env
        = (if truthy (request_token env) then Raise UnboundLocalError
           else App (env\<lparr>swift_authorize := Some authorize_hook, swift_clean_acl := True\<rparr>),
           mc, [Called_get_identity])"
proof -
  have v: "valid_cache cfg now (mauth_creds mc (u @ ''/'' @ ky)) = None"
    using assms(8,9) by (rule valid_cache_expired)
  have s3: "s3_block cfg ext now mc env = Inr (None, Unbound, env, [])"
    using assms(1) by (rule s3_block_no_header)
  have a: "auth_request cfg now mc (None, Unbound, env, [])
      = Inr (None, Unbound, env, [Called_get_identity])"
    using assms(4-7) v by (simp add: auth_request_def truthy_def)
  have n: "native_block cfg now mc (None, Unbound, env, [])
      = Inr (None, Unbound, env, [Called_get_identity])"
    using assms(1,2,3) a by (auto simp: native_block_def)
  show ?thesis
    by (simp add: call_def s3 n token_block_no_identity)
qed

lemma expired_token_entry:
  assumes "\<not> truthy (HTTP_AUTHORIZATION env)"
    and "split_path (PATH_INFO env) 1 2 = Some [piece, rest]"
    and "piece \<noteq> Some ''auth''" and "piece \<noteq> Some ''v1.0''"
    and "request_token env = Some t" and "t \<noteq> []"
    and "mauth_token mc t = Some (e, i)" and "e \<le> now"
  shows "call cfg ext now mc env = validate ext mc env [] (Some t)"
proof -
  have f: "format_token (Some t) = t"
    by (simp add: format_token_def)
  have v: "valid_cache cfg now (mauth_token mc (format_token (Some t))) = None"
    using assms(7,8) unfolding f by (rule valid_cache_expired)
  have s3: "s3_block cfg ext now mc env = Inr (None, Unbound, env, [])"
    using assms(1) by (rule s3_block_no_header)
  have n: "native_block cfg now mc (None, Unbound, env, [])
      = Inr (None, Bound (Some t), env, [])"
    using assms(1-5) by (simp add: native_block_def)
  have r: "truthy (request_token env)"
    using assms(5,6) by (simp add: truthy_def)
  have k: "token_block cfg ext now mc (None, Bound (Some t), env, [])
      = validate ext mc env [] (Some t)"
    using r v by (simp add: token_block_def identity_truthy_def)
  show ?thesis
    by (simp add: call_def s3 n k)
qed

lemma expired_token_entry_calls:
  assumes "\<not> truthy (HTTP_AUTHORIZATION env)"
    and "split_path (PATH_INFO env) 1 2 = Some [piece, rest]"
    and "piece \<noteq> Some ''auth''" and "piece \<noteq> Some ''v1.0''"
    and "request_token env = Some t" and "t \<noteq> []"
    and "mauth_token mc t = Some (e, i)" and "e \<le> now"
  shows "call cfg ext now mc env = validate ext mc env [] (Some t)
     \<and> snd (snd (call cfg ext now mc env)) = [Called_validate_token (Some t)]"
  using expired_token_entry [OF assms, of cfg ext] validate_calls [of ext mc env "[]" "Some t"]
  by simp

lemma validate_accepted:
  assumes "validate_token ext t = Some j" and "j \<noteq> empty_identity"
    and "expires j = Some e" and "fromtimestamp_ok ext e" and "roles j = Some rs"
  shows "validate ext mc env calls t
     = (App (env\<lparr>mauth_identity := Some j, REMOTE_USER := Some (join '':'' rs),
                   swift_authorize := Some authorize_hook, swift_clean_acl := True\<rparr>),
        mc\<lparr>mauth_token := (mauth_token mc)(format_token t \<mapsto> (e, j))\<rparr>,
        calls @ [Called_validate_token t])"
  using assms by (simp add: validate_def install_def)

lemma validate_rejected:
  assumes "validate_token ext t = None"
  shows "validate ext mc env calls t
     = (App (env\<lparr>swift_authorize := Some denied_response_hook\<rparr>), mc,
        calls @ [Called_validate_token t])"
  using assms by (simp add: validate_def)

lemma expired_token_entry_accepted:
  assumes "\<not> truthy (HTTP_AUTHORIZATION env)"
    and "split_path (PATH_INFO env) 1 2 = Some [piece, rest]"
    and "piece \<noteq> Some ''auth''" and "piece \<noteq> Some ''v1.0''"
    and "request_token env = Some t" and "t \<noteq> []"
    and "mauth_token mc t = Some (e, i)" and "e \<le> now"
    and "validate_token ext (Some t) = Some j" and "j \<noteq> empty_identity"
    and "expires j = Some e'" and "fromtimestamp_ok ext e'" and "roles j = Some rs"
  shows "call cfg ext now mc env
     = (App (env\<lparr>mauth_identity := Some j, REMOTE_USER := Some (join '':'' rs),
                   swift_authorize := Some authorize_hook, swift_clean_acl := True\<rparr>),
        mc\<lparr>mauth_token := (mauth_token mc)(t \<mapsto> (e', j))\<rparr>,
        [Called_validate_token (Some t)])"
proof -
  have f: "format_token (Some t) = t"
    by (simp add: format_token_def)
  have "call cfg ext now mc env = validate ext mc env [] (Some t)"
    using assms(1-8) by (rule expired_token_entry)
  then show ?thesis
    using validate_accepted [OF assms(9-13), of mc env "[]"] f by simp
qed

lemma expired_token_entry_rejected:
  assumes "\<not> truthy (HTTP_AUTHORIZATION env)"
    and "split_path (PATH_INFO env) 1 2 = Some [piece, rest]"
    and "piece \<noteq> Some ''auth''" and "piece \<noteq> Some ''v1.0''"
    and "request_token env = Some t" and "t \<noteq> []"
    and "mauth_token mc t = Some (e, i)" and "e \<le> now"
    and "validate_token ext (Some t) = None"
  shows "call cfg ext now mc env
     = (App (env\<lparr>swift_authorize := Some denied_response_hook\<rparr>), mc,
        [Called_validate_token (Some t)])"
proof -
  have "call cfg ext now mc env = validate ext mc env [] (Some t)"
    using assms(1-8) by (rule expired_token_entry)
  then show ?thesis
    using validate_rejected [OF assms(9), of mc env "[]"] by simp
qed

subsection \<open>Expired cache entries\<close>

text \<open>
  What \<open>__call__\<close> does with a stored entry whose \<open>expires\<close> is not after
  \<open>time()\<close>. In each of the three lookups the entry is a miss and its identity is not
  used.
  With such an entry under the token of the request, \<open>validate_token\<close> decides: the
  identity it returns is installed and stored under the token, whatever the expired
  entry held, and when it returns None the \<open>denied_response\<close> hook is installed.
  With such an entry under the access key of an S3 request, or under the credentials of
  a token request at an auth URL, \<open>get_s3_identity\<close> or \<open>get_identity\<close> is called,
  without arguments and with its result dropped: the request is then handed on as an
  anonymous one, or, when it carries X-Auth-Token or X-Storage-Token, the read of the
  unbound \<open>token\<close> raises UnboundLocalError.
  And for a request that arrives without an identity: an identity that \<open>__call__\<close>
  installs in the environment was returned by \<open>validate_token\<close> in this call, or was
  read from an S3 or token cache entry with \<open>expires > time()\<close>.
\<close>

theorem expired_cache_entry_is_a_miss:
  "(HTTP_AUTHORIZATION env = Some h \<and> startswith h ''AWS''
      \<and> split_on CHR '' '' h = w0 # w1 # ws \<and> rsplit1 CHR '':'' w1 = [k, sg]
      \<and> k \<noteq> [] \<and> sg \<noteq> []
      \<and> mauth_s3_apikey mc k = Some (e1, d) \<and> e1 \<le> now
    \<longrightarrow> call cfg ext now mc env
        = (if truthy (request_token env) then Raise UnboundLocalError
           else App (env\<lparr>swift_authorize := Some authorize_hook, swift_clean_acl := True\<rparr>),
           mc, [Called_get_s3_identity]))
   \<and> (\<not> truthy (HTTP_AUTHORIZATION env)
      \<and> split_path (PATH_INFO env) 1 2 = Some [piece, rest]
      \<and> (piece = Some ''auth'' \<or> piece = Some ''v1.0'')
      \<and> HTTP_X_AUTH_USER env = Some u \<and> u \<noteq> []
      \<and> HTTP_X_AUTH_KEY env = Some ky \<and> ky \<noteq> []
      \<and> mauth_creds mc (u @ ''/'' @ ky) = Some (e2, i2) \<and> e2 \<le> now
    \<longrightarrow> call cfg ext now mc env
        = (if truthy (request_token env) then Raise UnboundLocalError
           else App (env\<lparr>swift_authorize := Some authorize_hook, swift_clean_acl := True\<rparr>),
           mc, [Called_get_identity]))
   \<and> (\<not> truthy (HTTP_AUTHORIZATION env)
      \<and> split_path (PATH_INFO env) 1 2 = Some [piece, rest]
      \<and> piece \<noteq> Some ''auth'' \<and> piece \<noteq> Some ''v1.0''
      \<and> request_token env = Some t \<and> t \<noteq> []
      \<and> mauth_token mc t = Some (e3, i3) \<and> e3 \<le> now
      \<and> validate_token ext (Some t) = Some j \<and> j \<noteq> empty_identity
      \<and> expires j = Some e4 \<and> fromtimestamp_ok ext e4 \<and> roles j = Some rs
    \<longrightarrow> call cfg ext now mc env
        = (App (env\<lparr>mauth_identity := Some j, REMOTE_USER := Some (join '':'' rs),
                      swift_authorize := Some authorize_hook, swift_clean_acl := True\<rparr>),
           mc\<lparr>mauth_token := (mauth_token mc)(t \<mapsto> (e4, j))\<rparr>,
           [Called_validate_token (Some t)]))
   \<and> (\<not> truthy (HTTP_AUTHORIZATION env)
      \<and> split_path (PATH_INFO env) 1 2 = Some [piece, rest]
      \<and> piece \<noteq> Some ''auth'' \<and> piece \<noteq> Some ''v1.0''
      \<and> request_token env = Some t \<and> t \<noteq> []
      \<and> mauth_token mc t = Some (e3, i3) \<and> e3 \<le> now
      \<and> validate_token ext (Some t) = None
    \<longrightarrow> call cfg ext now mc env
        = (App (env\<lparr>swift_authorize := Some denied_response_hook\<rparr>), mc,
           [Called_validate_token (Some t)]))
   \<and> (mauth_identity env = None \<and> fst (call cfg ext now mc env) = App env'
      \<and> mauth_identity env' = Some i
    \<longrightarrow> (\<exists>t. validate_token ext t = Some i
              \<and> Called_validate_token t \<in> set (snd (snd (call cfg ext now mc env))))
        \<or> (\<exists>k e d. mauth_s3_apikey mc k = Some (e, d) \<and> now < e \<and> s3_identity d = Some i)
        \<or> (\<exists>t e. mauth_token mc t = Some (e, i) \<and> now < e))"
  apply (intro conjI impI)
      apply (elim conjE, rule expired_s3_entry, assumption+)
     apply (elim conjE, rule expired_creds_entry, assumption+)
    apply (elim conjE, rule expired_token_entry_accepted, assumption+)
   apply (elim conjE, rule expired_token_entry_rejected, assumption+)
  apply (elim conjE, rule call_identity, assumption+)
  done

theorem expired_cache_entry_is_a_miss_witness:
  "call example_conf example_ext 1000 stale_cache s3_env
     = (Raise UnboundLocalError, stale_cache, [Called_get_s3_identity])
   \<and> call example_conf example_ext 1000 stale_cache auth_env
     = (App (auth_env\<lparr>swift_authorize := Some authorize_hook, swift_clean_acl := True\<rparr>),
        stale_cache, [Called_get_identity])
   \<and> mauth_token stale_token_cache ''T1'' = Some (900, bob)
   \<and> validate_token example_ext (Some ''T1'') = Some alice
   \<and> call example_conf example_ext 1000 stale_token_cache token_env
     = (App (token_env\<lparr>mauth_identity := Some alice, REMOTE_USER := Some ''admin'',
                        swift_authorize := Some authorize_hook, swift_clean_acl := True\<rparr>),
        stale_token_cache\<lparr>mauth_token :=
          (mauth_token stale_token_cache)(''T1'' \<mapsto> (4600, alice))\<rparr>,
        [Called_validate_token (Some ''T1'')])
   \<and> call example_conf rejecting_ext 1000 stale_token_cache token_env
     = (App (token_env\<lparr>swift_authorize := Some denied_response_hook\<rparr>), stale_token_cache,
        [Called_validate_token (Some ''T1'')])
   \<and> mauth_identity token_env = None
   \<and> fst (call example_conf example_ext 1000 warm_cache token_env)
     = App (token_env\<lparr>mauth_identity := Some alice, REMOTE_USER := Some ''admin'',
                       swift_authorize := Some authorize_hook, swift_clean_acl := True\<rparr>)
   \<and> ((\<exists>t. validate_token example_ext t = Some alice
          \<and> Called_validate_token t
              \<in> set (snd (snd (call example_conf example_ext 1000 warm_cache token_env))))
      \<or> (\<exists>k e d. mauth_s3_apikey warm_cache k = Some (e, d) \<and> 1000 < e
                 \<and> s3_identity d = Some alice)
      \<or> (\<exists>t e. mauth_token warm_cache t = Some (e, alice) \<and> 1000 < e))"
proof -
  let ?h = "''AWS AKIAXXX:cxwKrgJ3dHLbZ7U5LgatetGbiOY=''"
  let ?w = "''AKIAXXX:cxwKrgJ3dHLbZ7U5LgatetGbiOY=''"
  let ?sg = "''cxwKrgJ3dHLbZ7U5LgatetGbiOY=''"
  let ?entry = "\<lparr>secret = Some ''s3secret'', s3_identity = Some alice\<rparr>"
  let ?anon = "\<lambda>env. env\<lparr>swift_authorize := Some authorize_hook, swift_clean_acl := True\<rparr>"
  let ?env' = "token_env\<lparr>mauth_identity := Some alice, REMOTE_USER := Some ''admin'',
                       swift_authorize := Some authorize_hook, swift_clean_acl := True\<rparr>"
  have s1: "HTTP_AUTHORIZATION s3_env = Some ?h" by code_simp
  have s2: "startswith ?h ''AWS''" by code_simp
  have s3: "split_on CHR '' '' ?h = ''AWS'' # ?w # []" by code_simp
  have s4: "rsplit1 CHR '':'' ?w = [''AKIAXXX'', ?sg]" by code_simp
  have s5: "mauth_s3_apikey stale_cache ''AKIAXXX'' = Some (900, ?entry)"
    by (simp add: stale_cache_def)
  have s6: "truthy (request_token s3_env)" by code_simp
  have h1: "HTTP_AUTHORIZATION s3_env = Some ?h \<and> startswith ?h ''AWS''
      \<and> split_on CHR '' '' ?h = ''AWS'' # ?w # [] \<and> rsplit1 CHR '':'' ?w = [''AKIAXXX'', ?sg]
      \<and> ''AKIAXXX'' \<noteq> [] \<and> ?sg \<noteq> []
      \<and> mauth_s3_apikey stale_cache ''AKIAXXX'' = Some (900, ?entry) \<and> (900::int) \<le> 1000"
    using s1 s2 s3 s4 s5 by simp
  have c1: "call example_conf example_ext 1000 stale_cache s3_env
     = (Raise UnboundLocalError, stale_cache, [Called_get_s3_identity])"
    using expired_cache_entry_is_a_miss
      [where env = s3_env and h = ?h and ?w0.0 = "''AWS''" and ?w1.0 = ?w and ws = "[]"
         and k = "''AKIAXXX''" and sg = ?sg and mc = stale_cache and ?e1.0 = 900
         and d = ?entry and now = 1000 and cfg = example_conf and ext = example_ext,
       THEN conjunct1, THEN mp, OF h1] s6
    by simp
  have a1: "\<not> truthy (HTTP_AUTHORIZATION auth_env)" by code_simp
  have a2: "split_path (PATH_INFO auth_env) 1 2 = Some [Some ''v1.0'', None]" by code_simp
  have a3: "HTTP_X_AUTH_USER auth_env = Some ''alice''" by code_simp
  have a4: "HTTP_X_AUTH_KEY auth_env = Some ''k1''" by code_simp
  have a5: "mauth_creds stale_cache (''alice'' @ ''/'' @ ''k1'') = Some (900, alice)"
    by (simp add: stale_cache_def)
  have a6: "\<not> truthy (request_token auth_env)" by code_simp
  have h2: "\<not> truthy (HTTP_AUTHORIZATION auth_env)
      \<and> split_path (PATH_INFO auth_env) 1 2 = Some [Some ''v1.0'', None]
      \<and> (Some ''v1.0'' = Some ''auth'' \<or> Some ''v1.0'' = Some ''v1.0'')
      \<and> HTTP_X_AUTH_USER auth_env = Some ''alice'' \<and> ''alice'' \<noteq> []
      \<and> HTTP_X_AUTH_KEY auth_env = Some ''k1'' \<and> ''k1'' \<noteq> []
      \<and> mauth_creds stale_cache (''alice'' @ ''/'' @ ''k1'') = Some (900, alice)
      \<and> (900::int) \<le> 1000"
    using a1 a2 a3 a4 a5 by simp
  have c2: "call example_conf example_ext 1000 stale_cache auth_env
     = (App (?anon auth_env), stale_cache, [Called_get_identity])"
    using expired_cache_entry_is_a_miss
      [where env = auth_env and piece = "Some ''v1.0''" and rest = None and u = "''alice''"
         and ky = "''k1''" and mc = stale_cache and ?e2.0 = 900 and ?i2.0 = alice
         and now = 1000 and cfg = example_conf and ext = example_ext,
       THEN conjunct2, THEN conjunct1, THEN mp, OF h2] a6
    by simp
  have t1: "\<not> truthy (HTTP_AUTHORIZATION token_env)" by code_simp
  have t2: "split_path (PATH_INFO token_env) 1 2 = Some [Some ''v1'', Some ''AUTH_alice/c1/obj'']"
    by code_simp
  have t3: "request_token token_env = Some ''T1''" by code_simp
  have t4: "mauth_token stale_token_cache ''T1'' = Some (900, bob)"
    by (simp add: stale_token_cache_def)
  have t5: "validate_token example_ext (Some ''T1'') = Some alice" by code_simp
  have t6: "alice \<noteq> empty_identity \<and> expires alice = Some 4600
      \<and> fromtimestamp_ok example_ext 4600 \<and> roles alice = Some [''admin'']"
    by code_simp
  have t7: "validate_token rejecting_ext (Some ''T1'') = None" by code_simp
  have t8: "join '':'' [''admin''] = ''admin''" by simp
  have h3: "\<not> truthy (HTTP_AUTHORIZATION token_env)
      \<and> split_path (PATH_INFO token_env) 1 2 = Some [Some ''v1'', Some ''AUTH_alice/c1/obj'']
      \<and> Some ''v1'' \<noteq> Some ''auth'' \<and> Some ''v1'' \<noteq> Some ''v1.0''
      \<and> request_token token_env = Some ''T1'' \<and> ''T1'' \<noteq> []
      \<and> mauth_token stale_token_cache ''T1'' = Some (900, bob) \<and> (900::int) \<le> 1000
      \<and> validate_token example_ext (Some ''T1'') = Some alice \<and> alice \<noteq> empty_identity
      \<and> expires alice = Some 4600 \<and> fromtimestamp_ok example_ext 4600
      \<and> roles alice = Some [''admin'']"
    using t1 t2 t3 t4 t5 t6 by simp
  have c3: "call example_conf example_ext 1000 stale_token_cache token_env
     = (App ?env',
        stale_token_cache\<lparr>mauth_token :=
          (mauth_token stale_token_cache)(''T1'' \<mapsto> (4600, alice))\<rparr>,
        [Called_validate_token (Some ''T1'')])"
    using expired_cache_entry_is_a_miss
      [where env = token_env and piece = "Some ''v1''" and rest = "Some ''AUTH_alice/c1/obj''"
         and t = "''T1''" and mc = stale_token_cache and ?e3.0 = 900 and ?i3.0 = bob
         and j = alice and ?e4.0 = 4600 and rs = "[''admin'']"
         and now = 1000 and cfg = example_conf and ext = example_ext,
       THEN conjunct2, THEN conjunct2, THEN conjunct1, THEN mp, OF h3] t8
    by simp
  have h3': "\<not> truthy (HTTP_AUTHORIZATION token_env)
      \<and> split_path (PATH_INFO token_env) 1 2 = Some [Some ''v1'', Some ''AUTH_alice/c1/obj'']
      \<and> Some ''v1'' \<noteq> Some ''auth'' \<and> Some ''v1'' \<noteq> Some ''v1.0''
      \<and> request_token token_env = Some ''T1'' \<and> ''T1'' \<noteq> []
      \<and> mauth_token stale_token_cache ''T1'' = Some (900, bob) \<and> (900::int) \<le> 1000
      \<and> validate_token rejecting_ext (Some ''T1'') = None"
    using t1 t2 t3 t4 t7 by simp
  have c3': "call example_conf rejecting_ext 1000 stale_token_cache token_env
     = (App (token_env\<lparr>swift_authorize := Some denied_response_hook\<rparr>), stale_token_cache,
        [Called_validate_token (Some ''T1'')])"
    using expired_cache_entry_is_a_miss
      [where env = token_env and piece = "Some ''v1''" and rest = "Some ''AUTH_alice/c1/obj''"
         and t = "''T1''" and mc = stale_token_cache and ?e3.0 = 900 and ?i3.0 = bob
         and now = 1000 and cfg = example_conf and ext = rejecting_ext,
       THEN conjunct2, THEN conjunct2, THEN conjunct2, THEN conjunct1, THEN mp, OF h3']
    .
  have i1: "mauth_identity token_env = None" by code_simp
  have i2: "fst (call example_conf example_ext 1000 warm_cache token_env) = App ?env'"
    by code_simp
  have i3: "mauth_identity ?env' = Some alice" by simp
  have h4: "mauth_identity token_env = None
      \<and> fst (call example_conf example_ext 1000 warm_cache token_env) = App ?env'
      \<and> mauth_identity ?env' = Some alice"
    using i1 i2 i3 by simp
  have c4: "(\<exists>t. validate_token example_ext t = Some alice
          \<and> Called_validate_token t
              \<in> set (snd (snd (call example_conf example_ext 1000 warm_cache token_env))))
      \<or> (\<exists>k e d. mauth_s3_apikey warm_cache k = Some (e, d) \<and> 1000 < e
                 \<and> s3_identity d = Some alice)
      \<or> (\<exists>t e. mauth_token warm_cache t = Some (e, alice) \<and> 1000 < e)"
    using expired_cache_entry_is_a_miss
      [where env = token_env and env' = ?env' and i = alice and mc = warm_cache
         and now = 1000 and cfg = example_conf and ext = example_ext,
       THEN conjunct2, THEN conjunct2, THEN conjunct2, THEN conjunct2, THEN mp, OF h4]
    by simp
  show ?thesis using c1 c2 t4 t5 c3 c3' i1 i2 c4 by simp
qed


end
